theory Spec2Isabelle
  imports Complex_Main "HOL-Library.Word" "HOL-Library.Signed_Division"
begin

section \<open>Plain values\<close>

text \<open>
  The C++ type \<^verbatim>\<open>int\<close> is a 32-bit two's complement integer. Addition, subtraction and
  multiplication are those of \<^typ>\<open>32 word\<close>; where C++ leaves a signed overflow undefined
  the model gives the wrapped result that the machine computes. Comparisons read both sides
  as signed values. Division truncates towards zero.
\<close>

type_synonym int32 = "32 word"

definition int_div :: "int32 \<Rightarrow> int32 \<Rightarrow> int32" where
  "int_div a b = word_of_int (sint a sdiv sint b)"

definition int_less :: "int32 \<Rightarrow> int32 \<Rightarrow> bool" where
  "int_less a b \<longleftrightarrow> sint a < sint b"

definition int_greater :: "int32 \<Rightarrow> int32 \<Rightarrow> bool" where
  "int_greater a b \<longleftrightarrow> sint b < sint a"

text \<open>
  \<^verbatim>\<open>NM::Vector2i\<close>, \<^verbatim>\<open>N::Size\<close>, \<^verbatim>\<open>NG::Colorf\<close> and \<^verbatim>\<open>NM::Vector3f\<close> are declared by the
  framework the examples link against. A \<^verbatim>\<open>Vector2i\<close> has the \<^verbatim>\<open>int\<close> members \<^verbatim>\<open>x\<close> and
  \<^verbatim>\<open>y\<close> (named \<open>vec_x\<close> and \<open>vec_y\<close> here) and \<^verbatim>\<open>+=\<close> adds member by member; the members
  \<^verbatim>\<open>width\<close> and \<^verbatim>\<open>height\<close> of a \<^verbatim>\<open>Size\<close> are taken as \<^verbatim>\<open>int\<close> as well. The type
  \<open>'f\<close> stands for \<^verbatim>\<open>float\<close>: the code under study never computes with a float, it
  only stores floats, passes them on and converts an \<^verbatim>\<open>int\<close> to one.
\<close>

record Vector2i =
  vec_x :: int32
  vec_y :: int32

definition Vector2i_plus :: "Vector2i \<Rightarrow> Vector2i \<Rightarrow> Vector2i" where
  "Vector2i_plus a b = \<lparr>vec_x = vec_x a + vec_x b, vec_y = vec_y a + vec_y b\<rparr>"

record Size =
  width :: int32
  height :: int32

datatype 'f Colorf = Colorf 'f 'f 'f 'f

datatype 'f Vector3f = Vector3f 'f 'f 'f

section \<open>Components\<close>

record 'f RenderComponent =
  color :: "'f Colorf"

text \<open>The member \<^verbatim>\<open>size\<close> of a \<^verbatim>\<open>SizeComponent\<close> is named \<open>size_vec\<close>.\<close>

record SizeComponent =
  size_vec :: Vector2i

record PositionComponent =
  pos :: Vector2i

record MovementComponent =
  offset :: Vector2i

section \<open>Resolving a component type to its container\<close>

text \<open>
  \<^verbatim>\<open>StorageItemType\<close> is the variant of the four vectors
  \<^verbatim>\<open>std::variant<vector<RenderComponent>, vector<SizeComponent>,
  vector<PositionComponent>, vector<MovementComponent>>\<close>. A \<open>ContainerType\<close> names one
  alternative as a type; \<open>StorageItemType_alternatives\<close> lists them in the order of the
  template arguments of \<^verbatim>\<open>ECSType\<close>.
\<close>

datatype ContainerType =
  RenderContainer | SizeContainer | PositionContainer | MovementContainer

datatype 'f StorageItemType =
  RenderVec "'f RenderComponent list"
  | SizeVec "SizeComponent list"
  | PositionVec "PositionComponent list"
  | MovementVec "MovementComponent list"

definition StorageItemType_alternatives :: "ContainerType list" where
  "StorageItemType_alternatives =
     [RenderContainer, SizeContainer, PositionContainer, MovementContainer]"

text \<open>The alternative a variant currently holds (\<^verbatim>\<open>std::variant::index\<close>, as a type).\<close>

fun holds_alternative :: "'f StorageItemType \<Rightarrow> ContainerType" where
  "holds_alternative (RenderVec v) = RenderContainer"
| "holds_alternative (SizeVec v) = SizeContainer"
| "holds_alternative (PositionVec v) = PositionContainer"
| "holds_alternative (MovementVec v) = MovementContainer"

text \<open>
  \<^verbatim>\<open>get_component_index<VariantType, T, index>\<close>: the position of \<open>T\<close> among the
  alternatives, searched from \<open>index\<close> upwards. The \<^verbatim>\<open>static_assert\<close> rejects the
  program when the search runs past the last alternative; that is the result \<open>None\<close>.
\<close>

function get_component_index :: "ContainerType list \<Rightarrow> ContainerType \<Rightarrow> nat \<Rightarrow> nat option" where
  "get_component_index VariantType T index =
     (if \<not> (length VariantType > index) then None
      else if index = length VariantType then Some index
      else if VariantType ! index = T then Some index
      else get_component_index VariantType T (index + 1))"
  by pat_completeness auto
termination
  by (relation "measure (\<lambda>(VariantType, T, index). length VariantType - index)") auto

declare get_component_index.simps [simp del]

definition component_index_v :: "ContainerType list \<Rightarrow> ContainerType \<Rightarrow> nat option" where
  "component_index_v VariantType ComponentType = get_component_index VariantType ComponentType 0"

section \<open>Faults\<close>

text \<open>
  \<open>TypeNotFound\<close> is the failed \<^verbatim>\<open>static_assert\<close>, \<open>BadVariantAccess\<close> the exception of
  \<^verbatim>\<open>std::get\<close> on a variant that holds another alternative, and \<open>OutOfBounds\<close> an
  \<^verbatim>\<open>operator[]\<close> of \<^verbatim>\<open>std::array\<close> or \<^verbatim>\<open>std::vector\<close> past the end, which C++ leaves
  undefined.
\<close>

datatype fault = TypeNotFound | BadVariantAccess | OutOfBounds

definition bind_fault :: "fault + 'a \<Rightarrow> ('a \<Rightarrow> fault + 'b) \<Rightarrow> fault + 'b" where
  "bind_fault r f = (case r of Inl err \<Rightarrow> Inl err | Inr v \<Rightarrow> f v)"

definition at_index :: "'a list \<Rightarrow> nat \<Rightarrow> fault + 'a" where
  "at_index xs i = (if i < length xs then Inr (xs ! i) else Inl OutOfBounds)"

section \<open>The ECS: storage and systems\<close>

type_synonym ResourceId = nat

text \<open>
  The two classes derived from \<^verbatim>\<open>System\<close>, each with its data members: \<^verbatim>\<open>m_mesh_id\<close> and
  \<^verbatim>\<open>m_shader_id\<close> for a \<^verbatim>\<open>RenderSystem\<close> (its \<^verbatim>\<open>m_renderer\<close> refers to the one renderer
  of the program), \<^verbatim>\<open>m_size\<close> for a \<^verbatim>\<open>MovementSystem\<close>.
\<close>

datatype SystemType =
  RenderSystem ResourceId ResourceId
  | MovementSystem Size

record 'f ECS =
  m_storage :: "'f StorageItemType list"
  m_systems :: "SystemType list"

text \<open>
  The constructor: every slot of the array starts as a default variant, which holds the
  first alternative, and slot \<open>i\<close> is then assigned the empty vector of the \<open>i\<close>-th type.
\<close>

definition ECS_ctor :: "'f ECS" where
  "ECS_ctor =
     \<lparr>m_storage = (replicate (length StorageItemType_alternatives) (RenderVec []))
        [0 := RenderVec [], 1 := SizeVec [], 2 := PositionVec [], 3 := MovementVec []],
      m_systems = []\<rparr>"

text \<open>
  A template parameter \<^verbatim>\<open>ComponentType\<close> is passed as the three things the templates use
  of it: the container type \<^verbatim>\<open>StorageContainer<ComponentType>\<close>, \<^verbatim>\<open>std::get\<close> at that
  type (\<open>None\<close> when the variant holds another alternative), and the variant that holds a
  given vector of that type, which is what a write through the reference returned by
  \<^verbatim>\<open>std::get\<close> leaves in the slot.
\<close>

record ('a, 'f) ComponentType =
  ContainerType_of :: ContainerType
  std_get :: "'f StorageItemType \<Rightarrow> 'a list option"
  std_put :: "'a list \<Rightarrow> 'f StorageItemType"

definition RenderComponent_t :: "('f RenderComponent, 'f) ComponentType" where
  "RenderComponent_t =
     \<lparr>ContainerType_of = RenderContainer,
      std_get = (\<lambda>item. case item of RenderVec v \<Rightarrow> Some v | _ \<Rightarrow> None),
      std_put = RenderVec\<rparr>"

definition SizeComponent_t :: "(SizeComponent, 'f) ComponentType" where
  "SizeComponent_t =
     \<lparr>ContainerType_of = SizeContainer,
      std_get = (\<lambda>item. case item of SizeVec v \<Rightarrow> Some v | _ \<Rightarrow> None),
      std_put = SizeVec\<rparr>"

definition PositionComponent_t :: "(PositionComponent, 'f) ComponentType" where
  "PositionComponent_t =
     \<lparr>ContainerType_of = PositionContainer,
      std_get = (\<lambda>item. case item of PositionVec v \<Rightarrow> Some v | _ \<Rightarrow> None),
      std_put = PositionVec\<rparr>"

definition MovementComponent_t :: "(MovementComponent, 'f) ComponentType" where
  "MovementComponent_t =
     \<lparr>ContainerType_of = MovementContainer,
      std_get = (\<lambda>item. case item of MovementVec v \<Rightarrow> Some v | _ \<Rightarrow> None),
      std_put = MovementVec\<rparr>"

text \<open>\<^verbatim>\<open>ECS::components_container<ComponentType>()\<close>.\<close>

definition components_container :: "('a, 'f) ComponentType \<Rightarrow> 'f ECS \<Rightarrow> fault + 'a list" where
  "components_container T e =
     (case component_index_v StorageItemType_alternatives (ContainerType_of T) of
        None \<Rightarrow> Inl TypeNotFound
      | Some container_index \<Rightarrow>
          bind_fault (at_index (m_storage e) container_index)
            (\<lambda>item. case std_get T item of None \<Rightarrow> Inl BadVariantAccess | Some v \<Rightarrow> Inr v))"

text \<open>\<^verbatim>\<open>ECS::component<ComponentType>(index)\<close>, read.\<close>

definition component :: "('a, 'f) ComponentType \<Rightarrow> nat \<Rightarrow> 'f ECS \<Rightarrow> fault + 'a" where
  "component T index e = bind_fault (components_container T e) (\<lambda>v. at_index v index)"

text \<open>
  An assignment through the reference that \<^verbatim>\<open>component<ComponentType>(index)\<close> returned:
  the element at \<open>index\<close> of that container is replaced, in place.
\<close>

definition assign_component :: "('a, 'f) ComponentType \<Rightarrow> nat \<Rightarrow> 'a \<Rightarrow> 'f ECS \<Rightarrow> fault + 'f ECS" where
  "assign_component T index val e =
     (case component_index_v StorageItemType_alternatives (ContainerType_of T) of
        None \<Rightarrow> Inl TypeNotFound
      | Some container_index \<Rightarrow>
          bind_fault (components_container T e)
            (\<lambda>v. if index < length v
                 then Inr (e\<lparr>m_storage := (m_storage e)[container_index := std_put T (v[index := val])]\<rparr>)
                 else Inl OutOfBounds))"

text \<open>\<^verbatim>\<open>ECS::add_component(component)\<close>: \<^verbatim>\<open>push_back\<close> on the container of the type.\<close>

definition add_component :: "('a, 'f) ComponentType \<Rightarrow> 'a \<Rightarrow> 'f ECS \<Rightarrow> fault + 'f ECS" where
  "add_component T val e =
     (case component_index_v StorageItemType_alternatives (ContainerType_of T) of
        None \<Rightarrow> Inl TypeNotFound
      | Some index \<Rightarrow>
          bind_fault (at_index (m_storage e) index)
            (\<lambda>item. case std_get T item of
                 None \<Rightarrow> Inl BadVariantAccess
               | Some v \<Rightarrow> Inr (e\<lparr>m_storage := (m_storage e)[index := std_put T (v @ [val])]\<rparr>)))"


section \<open>The renderer\<close>

text \<open>
  The renderer is a collaborator outside the examples. Of its interface the systems use
  \<^verbatim>\<open>render(mesh_id, shader_id, uniforms)\<close> only, which enqueues one draw; the renderer is
  therefore the queue of the draws submitted so far. A uniform is a name with a value.
  \<^verbatim>\<open>NM::Vector3f{v, z}\<close> builds a float vector from an \<^verbatim>\<open>int\<close> vector and an \<^verbatim>\<open>int\<close>;
  the conversion of one \<^verbatim>\<open>int\<close> to \<^verbatim>\<open>float\<close> is the parameter \<open>to_float\<close>.
\<close>

datatype 'f UniformValue = UniformVector3f "'f Vector3f" | UniformColorf "'f Colorf"

type_synonym 'f Uniform = "string \<times> 'f UniformValue"

record 'f DrawCall =
  mesh_id :: ResourceId
  shader_id :: ResourceId
  uniforms :: "'f Uniform list"

type_synonym 'f Renderer = "'f DrawCall list"

definition Renderer_render ::
  "ResourceId \<Rightarrow> ResourceId \<Rightarrow> 'f Uniform list \<Rightarrow> 'f Renderer \<Rightarrow> 'f Renderer" where
  "Renderer_render mesh shader us renderer =
     renderer @ [\<lparr>mesh_id = mesh, shader_id = shader, uniforms = us\<rparr>]"

definition Vector3f_of :: "(int32 \<Rightarrow> 'f) \<Rightarrow> Vector2i \<Rightarrow> int32 \<Rightarrow> 'f Vector3f" where
  "Vector3f_of to_float v z = Vector3f (to_float (vec_x v)) (to_float (vec_y v)) (to_float z)"

section \<open>RenderSystem\<close>

text \<open>
  The body of the loop of \<^verbatim>\<open>RenderSystem::update\<close> for one \<open>index\<close>, then the loop.
  \<open>EntityesCount\<close> is a constant of the program (100000 in one example, 1 in the other) and
  a parameter here.
\<close>

definition RenderSystem_body ::
  "(int32 \<Rightarrow> 'f) \<Rightarrow> ResourceId \<Rightarrow> ResourceId \<Rightarrow> nat \<Rightarrow> 'f ECS \<times> 'f Renderer
     \<Rightarrow> fault + 'f ECS \<times> 'f Renderer" where
  "RenderSystem_body to_float mesh shader index w =
     (case w of (e, renderer) \<Rightarrow>
        bind_fault (component RenderComponent_t index e) (\<lambda>r.
        bind_fault (component SizeComponent_t index e) (\<lambda>s.
        bind_fault (component PositionComponent_t index e) (\<lambda>p.
          Inr (e, Renderer_render mesh shader
                 [(''pos'', UniformVector3f (Vector3f_of to_float (pos p) 0)),
                  (''size'', UniformVector3f (Vector3f_of to_float (size_vec s) 1)),
                  (''color'', UniformColorf (color r))]
                 renderer)))))"

function RenderSystem_loop ::
  "(int32 \<Rightarrow> 'f) \<Rightarrow> nat \<Rightarrow> ResourceId \<Rightarrow> ResourceId \<Rightarrow> nat \<Rightarrow> 'f ECS \<times> 'f Renderer
     \<Rightarrow> fault + 'f ECS \<times> 'f Renderer" where
  "RenderSystem_loop to_float EntityesCount mesh shader index w =
     (if index < EntityesCount
      then (case RenderSystem_body to_float mesh shader index w of
              Inl err \<Rightarrow> Inl err
            | Inr w' \<Rightarrow> RenderSystem_loop to_float EntityesCount mesh shader (index + 1) w')
      else Inr w)"
  by pat_completeness auto
termination
  by (relation "measure (\<lambda>(to_float, EntityesCount, mesh, shader, index, w). EntityesCount - index)")
    auto

declare RenderSystem_loop.simps [simp del]

definition RenderSystem_update ::
  "(int32 \<Rightarrow> 'f) \<Rightarrow> nat \<Rightarrow> ResourceId \<Rightarrow> ResourceId \<Rightarrow> 'f ECS \<times> 'f Renderer
     \<Rightarrow> fault + 'f ECS \<times> 'f Renderer" where
  "RenderSystem_update to_float EntityesCount mesh shader w =
     RenderSystem_loop to_float EntityesCount mesh shader 0 w"

section \<open>MovementSystem\<close>

text \<open>
  The statements of the loop body of \<^verbatim>\<open>MovementSystem::update\<close> on the three components
  that the references \<open>p\<close>, \<open>s\<close> and \<open>m\<close> denote: the two reflections, then the move. The
  result is the new position component and the new movement component. In the second example
  the size component has the members \<^verbatim>\<open>width\<close> and \<^verbatim>\<open>height\<close> where this one has
  \<^verbatim>\<open>size.x\<close> and \<^verbatim>\<open>size.y\<close>; the statements are the same otherwise.
\<close>

definition MovementSystem_step ::
  "Size \<Rightarrow> PositionComponent \<Rightarrow> SizeComponent \<Rightarrow> MovementComponent
     \<Rightarrow> PositionComponent \<times> MovementComponent" where
  "MovementSystem_step m_size p s m =
     (let p_pos = pos p;
          s_size = size_vec s;
          m1 = (if int_greater (vec_x p_pos + int_div (vec_x s_size) 2) (width m_size)
                   \<or> int_less (vec_x p_pos - int_div (vec_x s_size) 2) 0
                then m\<lparr>offset := (offset m)\<lparr>vec_x := vec_x (offset m) * (- 1)\<rparr>\<rparr>
                else m);
          m2 = (if int_greater (vec_y p_pos + int_div (vec_y s_size) 2) (height m_size)
                   \<or> int_less (vec_y p_pos - int_div (vec_y s_size) 2) 0
                then m1\<lparr>offset := (offset m1)\<lparr>vec_y := vec_y (offset m1) * (- 1)\<rparr>\<rparr>
                else m1)
      in (p\<lparr>pos := Vector2i_plus (pos p) (offset m2)\<rparr>, m2))"

definition MovementSystem_body :: "Size \<Rightarrow> nat \<Rightarrow> 'f ECS \<Rightarrow> fault + 'f ECS" where
  "MovementSystem_body m_size index e =
     bind_fault (component PositionComponent_t index e) (\<lambda>p.
     bind_fault (component SizeComponent_t index e) (\<lambda>s.
     bind_fault (component MovementComponent_t index e) (\<lambda>m.
       case MovementSystem_step m_size p s m of (p', m') \<Rightarrow>
         bind_fault (assign_component MovementComponent_t index m' e) (\<lambda>e1.
           assign_component PositionComponent_t index p' e1))))"

function MovementSystem_loop :: "nat \<Rightarrow> Size \<Rightarrow> nat \<Rightarrow> 'f ECS \<Rightarrow> fault + 'f ECS" where
  "MovementSystem_loop EntityesCount m_size index e =
     (if index < EntityesCount
      then (case MovementSystem_body m_size index e of
              Inl err \<Rightarrow> Inl err
            | Inr e' \<Rightarrow> MovementSystem_loop EntityesCount m_size (index + 1) e')
      else Inr e)"
  by pat_completeness auto
termination
  by (relation "measure (\<lambda>(EntityesCount, m_size, index, e). EntityesCount - index)") auto

declare MovementSystem_loop.simps [simp del]

definition MovementSystem_update :: "nat \<Rightarrow> Size \<Rightarrow> 'f ECS \<Rightarrow> fault + 'f ECS" where
  "MovementSystem_update EntityesCount m_size e = MovementSystem_loop EntityesCount m_size 0 e"

section \<open>The scheduler\<close>

text \<open>
  \<^verbatim>\<open>s->update()\<close> is a virtual call: it runs the \<^verbatim>\<open>update\<close> of the class of the system.
\<close>

definition System_update ::
  "(int32 \<Rightarrow> 'f) \<Rightarrow> nat \<Rightarrow> SystemType \<Rightarrow> 'f ECS \<times> 'f Renderer \<Rightarrow> fault + 'f ECS \<times> 'f Renderer" where
  "System_update to_float EntityesCount s w =
     (case s of
        RenderSystem mesh shader \<Rightarrow> RenderSystem_update to_float EntityesCount mesh shader w
      | MovementSystem sz \<Rightarrow>
          (case w of (e, renderer) \<Rightarrow>
             bind_fault (MovementSystem_update EntityesCount sz e) (\<lambda>e'. Inr (e', renderer))))"

text \<open>
  The loop of \<^verbatim>\<open>ECS::update\<close> over \<^verbatim>\<open>m_systems\<close>, for any way \<open>upd\<close> a system acts on the
  state \<open>w\<close> it can reach. A fault of one system leaves the loop.
\<close>

fun update_systems :: "('s \<Rightarrow> 'w \<Rightarrow> fault + 'w) \<Rightarrow> 's list \<Rightarrow> 'w \<Rightarrow> fault + 'w" where
  "update_systems upd [] w = Inr w"
| "update_systems upd (s # ss) w =
     (case upd s w of Inl err \<Rightarrow> Inl err | Inr w' \<Rightarrow> update_systems upd ss w')"

definition ECS_update ::
  "(int32 \<Rightarrow> 'f) \<Rightarrow> nat \<Rightarrow> 'f ECS \<times> 'f Renderer \<Rightarrow> fault + 'f ECS \<times> 'f Renderer" where
  "ECS_update to_float EntityesCount w =
     update_systems (System_update to_float EntityesCount) (m_systems (fst w)) w"

text \<open>
  The main loop of \<^verbatim>\<open>App::run\<close> calls \<^verbatim>\<open>m_ecs.update()\<close> once per frame; \<open>run_ticks\<close> is a
  number of such calls in a row.
\<close>

fun run_ticks ::
  "(int32 \<Rightarrow> 'f) \<Rightarrow> nat \<Rightarrow> nat \<Rightarrow> 'f ECS \<times> 'f Renderer \<Rightarrow> fault + 'f ECS \<times> 'f Renderer" where
  "run_ticks to_float EntityesCount 0 w = Inr w"
| "run_ticks to_float EntityesCount (Suc k) w =
     bind_fault (ECS_update to_float EntityesCount w) (run_ticks to_float EntityesCount k)"

section \<open>Notions used to state the properties\<close>

text \<open>The position at which \<open>get_component_index\<close> finds each container type.\<close>

definition container_slot :: "ContainerType \<Rightarrow> nat" where
  "container_slot C =
     (case C of RenderContainer \<Rightarrow> 0 | SizeContainer \<Rightarrow> 1
      | PositionContainer \<Rightarrow> 2 | MovementContainer \<Rightarrow> 3)"

text \<open>The number of elements of the vector a variant holds.\<close>

fun StorageItemType_size :: "'f StorageItemType \<Rightarrow> nat" where
  "StorageItemType_size (RenderVec v) = length v"
| "StorageItemType_size (SizeVec v) = length v"
| "StorageItemType_size (PositionVec v) = length v"
| "StorageItemType_size (MovementVec v) = length v"

text \<open>
  The invariant of the class \<^verbatim>\<open>ECS\<close>: slot \<open>i\<close> of \<^verbatim>\<open>m_storage\<close> holds the \<open>i\<close>-th
  alternative. The constructor establishes it and no member function changes the alternative
  a slot holds.
\<close>

definition ECS_invariant :: "'f ECS \<Rightarrow> bool" where
  "ECS_invariant e \<longleftrightarrow> map holds_alternative (m_storage e) = StorageItemType_alternatives"

text \<open>
  What makes \<open>T\<close> stand for a declared component type: \<open>std_get T\<close> succeeds exactly on the
  variants that hold the container type of \<open>T\<close>, and returns the vector that \<open>std_put T\<close>
  stores, element for element.
\<close>

definition declared :: "('a, 'f) ComponentType \<Rightarrow> bool" where
  "declared T \<longleftrightarrow>
     (\<forall>item v. std_get T item = Some v \<longleftrightarrow> item = std_put T v) \<and>
     (\<forall>item. holds_alternative item = ContainerType_of T \<longleftrightarrow> std_get T item \<noteq> None) \<and>
     (\<forall>v. StorageItemType_size (std_put T v) = length v)"

text \<open>
  The bounding box of an entity crosses a boundary of the domain on the x axis, or on the y
  axis: the condition of the first and of the second \<^verbatim>\<open>if\<close> of \<^verbatim>\<open>MovementSystem::update\<close>.
\<close>

definition crosses_x :: "Size \<Rightarrow> PositionComponent \<Rightarrow> SizeComponent \<Rightarrow> bool" where
  "crosses_x m_size p s \<longleftrightarrow>
     int_greater (vec_x (pos p) + int_div (vec_x (size_vec s)) 2) (width m_size)
     \<or> int_less (vec_x (pos p) - int_div (vec_x (size_vec s)) 2) 0"

definition crosses_y :: "Size \<Rightarrow> PositionComponent \<Rightarrow> SizeComponent \<Rightarrow> bool" where
  "crosses_y m_size p s \<longleftrightarrow>
     int_greater (vec_y (pos p) + int_div (vec_y (size_vec s)) 2) (height m_size)
     \<or> int_less (vec_y (pos p) - int_div (vec_y (size_vec s)) 2) 0"


section \<open>Type resolution and the accessors\<close>


lemma ECS_ctor_eq [code]:
  "ECS_ctor = \<lparr>m_storage = [RenderVec [], SizeVec [], PositionVec [], MovementVec []], m_systems = []\<rparr>"
  by (simp add: ECS_ctor_def StorageItemType_alternatives_def)

lemma component_index_v_eq:
  "component_index_v StorageItemType_alternatives C = Some (container_slot C)"
  by (cases C)
    (simp_all add: container_slot_def component_index_v_def StorageItemType_alternatives_def get_component_index.simps)

lemma container_slot_inj: "container_slot C = container_slot D \<longleftrightarrow> C = D"
  by (cases C; cases D) (simp_all add: container_slot_def)

lemma container_slot_less: "container_slot C < 4"
  by (cases C) (simp_all add: container_slot_def)

lemma ECS_invariant_shape:
  "ECS_invariant e \<longleftrightarrow>
     (\<exists>rs ss ps ms. m_storage e = [RenderVec rs, SizeVec ss, PositionVec ps, MovementVec ms])"
proof
  assume "ECS_invariant e"
  then obtain a b c d where abcd: "m_storage e = [a, b, c, d]"
    and h: "holds_alternative a = RenderContainer" "holds_alternative b = SizeContainer"
      "holds_alternative c = PositionContainer" "holds_alternative d = MovementContainer"
    by (auto simp: ECS_invariant_def StorageItemType_alternatives_def map_eq_Cons_conv)
  from h obtain rs ss ps ms where "a = RenderVec rs" "b = SizeVec ss" "c = PositionVec ps" "d = MovementVec ms"
    by (cases a; cases b; cases c; cases d) simp_all
  with abcd show "\<exists>rs ss ps ms. m_storage e = [RenderVec rs, SizeVec ss, PositionVec ps, MovementVec ms]"
    by simp
next
  assume "\<exists>rs ss ps ms. m_storage e = [RenderVec rs, SizeVec ss, PositionVec ps, MovementVec ms]"
  then show "ECS_invariant e"
    by (auto simp: ECS_invariant_def StorageItemType_alternatives_def)
qed

lemma ECS_invariant_slot:
  "ECS_invariant e \<Longrightarrow> length (m_storage e) = 4 \<and> holds_alternative (m_storage e ! container_slot C) = C"
  by (cases C) (auto simp: ECS_invariant_shape container_slot_def)

lemma declared_RenderComponent_t: "declared RenderComponent_t"
  by (auto simp: declared_def RenderComponent_t_def split: StorageItemType.splits)

lemma declared_SizeComponent_t: "declared SizeComponent_t"
  by (auto simp: declared_def SizeComponent_t_def split: StorageItemType.splits)

lemma declared_PositionComponent_t: "declared PositionComponent_t"
  by (auto simp: declared_def PositionComponent_t_def split: StorageItemType.splits)

lemma declared_MovementComponent_t: "declared MovementComponent_t"
  by (auto simp: declared_def MovementComponent_t_def split: StorageItemType.splits)

lemma declared_get_put: "declared T \<Longrightarrow> std_get T (std_put T v) = Some v"
  by (simp add: declared_def)

lemma declared_holds_put: "declared T \<Longrightarrow> holds_alternative (std_put T v) = ContainerType_of T"
  unfolding declared_def by (metis option.distinct(1))

lemma declared_get_other:
  "declared T \<Longrightarrow> holds_alternative item \<noteq> ContainerType_of T \<Longrightarrow> std_get T item = None"
  unfolding declared_def by blast

lemma components_container_iff:
  "components_container T e = Inr xs \<longleftrightarrow>
     container_slot (ContainerType_of T) < length (m_storage e) \<and>
     std_get T (m_storage e ! container_slot (ContainerType_of T)) = Some xs"
  by (auto simp: components_container_def component_index_v_eq bind_fault_def at_index_def
      split: option.splits)

lemma components_container_declared:
  assumes "declared T" "ECS_invariant e"
  shows "\<exists>xs. components_container T e = Inr xs"
proof -
  from assms(2) have len: "length (m_storage e) = 4"
    and h: "holds_alternative (m_storage e ! container_slot (ContainerType_of T)) = ContainerType_of T"
    by (simp_all add: ECS_invariant_slot)
  from h assms(1) obtain xs where "std_get T (m_storage e ! container_slot (ContainerType_of T)) = Some xs"
    by (auto simp: declared_def)
  with len show ?thesis
    by (auto simp: components_container_iff container_slot_less)
qed

lemma component_iff:
  "component T index e = Inr v \<longleftrightarrow>
     (\<exists>xs. components_container T e = Inr xs \<and> index < length xs \<and> v = xs ! index)"
  by (cases "components_container T e") (auto simp: component_def bind_fault_def at_index_def)

lemma add_component_iff:
  "add_component T v e = Inr e' \<longleftrightarrow>
     (\<exists>xs. components_container T e = Inr xs \<and>
        e' = e\<lparr>m_storage := (m_storage e)[container_slot (ContainerType_of T) := std_put T (xs @ [v])]\<rparr>)"
  by (auto simp: add_component_def components_container_def component_index_v_eq bind_fault_def at_index_def
      split: option.splits)

lemma assign_component_iff:
  "assign_component T index v e = Inr e' \<longleftrightarrow>
     (\<exists>xs. components_container T e = Inr xs \<and> index < length xs \<and>
        e' = e\<lparr>m_storage := (m_storage e)[container_slot (ContainerType_of T) := std_put T (xs[index := v])]\<rparr>)"
  by (cases "components_container T e")
     (auto simp: assign_component_def component_index_v_eq bind_fault_def)

lemma components_container_update_same:
  assumes "declared T" "container_slot (ContainerType_of T) < length (m_storage e)"
  shows "components_container T (e\<lparr>m_storage := (m_storage e)[container_slot (ContainerType_of T) := std_put T ys]\<rparr>) = Inr ys"
  using assms by (simp add: components_container_iff declared_get_put)

lemma components_container_update_other:
  assumes "ContainerType_of T' \<noteq> ContainerType_of T"
  shows "components_container T' (e\<lparr>m_storage := (m_storage e)[container_slot (ContainerType_of T) := item]\<rparr>)
           = components_container T' e"
  using assms
  by (simp add: components_container_def component_index_v_eq bind_fault_def at_index_def container_slot_inj)

lemma ECS_invariant_update:
  assumes "ECS_invariant e" "holds_alternative item = C"
  shows "ECS_invariant (e\<lparr>m_storage := (m_storage e)[container_slot C := item]\<rparr>)"
  using assms
  by (cases C)
    (simp_all add: ECS_invariant_def map_update StorageItemType_alternatives_def container_slot_def)

section \<open>The loop of the movement system\<close>


lemma components_container_shape:
  assumes "m_storage e = [RenderVec rs, SizeVec ss, PositionVec ps, MovementVec ms]"
  shows "components_container RenderComponent_t e = Inr rs"
    and "components_container SizeComponent_t e = Inr ss"
    and "components_container PositionComponent_t e = Inr ps"
    and "components_container MovementComponent_t e = Inr ms"
  using assms
  by (simp_all add: components_container_iff container_slot_def RenderComponent_t_def
      SizeComponent_t_def PositionComponent_t_def MovementComponent_t_def)

lemma ContainerType_of_simps:
  "ContainerType_of RenderComponent_t = RenderContainer"
  "ContainerType_of SizeComponent_t = SizeContainer"
  "ContainerType_of PositionComponent_t = PositionContainer"
  "ContainerType_of MovementComponent_t = MovementContainer"
  by (simp_all add: RenderComponent_t_def SizeComponent_t_def PositionComponent_t_def
      MovementComponent_t_def)

lemma std_put_simps:
  "std_put RenderComponent_t = RenderVec"
  "std_put SizeComponent_t = SizeVec"
  "std_put PositionComponent_t = PositionVec"
  "std_put MovementComponent_t = MovementVec"
  by (simp_all add: RenderComponent_t_def SizeComponent_t_def PositionComponent_t_def
      MovementComponent_t_def)

lemma MovementSystem_body_shape:
  assumes "m_storage e = [RenderVec rs, SizeVec ss, PositionVec ps, MovementVec ms]"
    and "index < length ps" "index < length ss" "index < length ms"
  shows "MovementSystem_body sz index e =
    Inr (e\<lparr>m_storage := [RenderVec rs, SizeVec ss,
       PositionVec (ps[index := fst (MovementSystem_step sz (ps ! index) (ss ! index) (ms ! index))]),
       MovementVec (ms[index := snd (MovementSystem_step sz (ps ! index) (ss ! index) (ms ! index))])]\<rparr>)"
proof -
  obtain p' m' where step: "MovementSystem_step sz (ps ! index) (ss ! index) (ms ! index) = (p', m')"
    by (cases "MovementSystem_step sz (ps ! index) (ss ! index) (ms ! index)")
  let ?e1 = "e\<lparr>m_storage := [RenderVec rs, SizeVec ss, PositionVec ps, MovementVec (ms[index := m'])]\<rparr>"
  have r: "component PositionComponent_t index e = Inr (ps ! index)"
    "component SizeComponent_t index e = Inr (ss ! index)"
    "component MovementComponent_t index e = Inr (ms ! index)"
    using assms by (simp_all add: component_iff components_container_shape)
  have a1: "assign_component MovementComponent_t index m' e = Inr ?e1"
    using assms
    by (simp add: assign_component_iff components_container_shape [OF assms(1)]
        ContainerType_of_simps std_put_simps container_slot_def)
  have "m_storage ?e1 = [RenderVec rs, SizeVec ss, PositionVec ps, MovementVec (ms[index := m'])]"
    by simp
  then have a2: "assign_component PositionComponent_t index p' ?e1 =
      Inr (e\<lparr>m_storage := [RenderVec rs, SizeVec ss, PositionVec (ps[index := p']), MovementVec (ms[index := m'])]\<rparr>)"
    using assms(2)
    by (simp add: assign_component_iff components_container_shape [of _ rs ss ps "ms[index := m']"]
        ContainerType_of_simps std_put_simps container_slot_def)
  show ?thesis
    by (simp add: MovementSystem_body_def r step a1 a2 bind_fault_def)
qed

lemma MovementSystem_loop_shape:
  assumes "m_storage e = [RenderVec rs, SizeVec ss, PositionVec ps, MovementVec ms]"
    and "n \<le> length ps" "n \<le> length ss" "n \<le> length ms"
  shows "\<exists>ps' ms'. MovementSystem_loop n sz index e =
           Inr (e\<lparr>m_storage := [RenderVec rs, SizeVec ss, PositionVec ps', MovementVec ms']\<rparr>) \<and>
         length ps' = length ps \<and> length ms' = length ms \<and>
         (\<forall>i < length ps. ps' ! i = (if index \<le> i \<and> i < n
            then fst (MovementSystem_step sz (ps ! i) (ss ! i) (ms ! i)) else ps ! i)) \<and>
         (\<forall>i < length ms. ms' ! i = (if index \<le> i \<and> i < n
            then snd (MovementSystem_step sz (ps ! i) (ss ! i) (ms ! i)) else ms ! i))"
  using assms
proof (induction "n - index" arbitrary: index e ps ms)
  case 0
  then have "\<not> index < n" by simp
  then have "MovementSystem_loop n sz index e = Inr e"
    by (simp add: MovementSystem_loop.simps [of n sz index e])
  moreover have "e = e\<lparr>m_storage := [RenderVec rs, SizeVec ss, PositionVec ps, MovementVec ms]\<rparr>"
    using "0.prems"(1) by simp
  ultimately show ?case using \<open>\<not> index < n\<close>
    by (intro exI [of _ ps] exI [of _ ms]) auto
next
  case (Suc d)
  then have lt: "index < n" by simp
  let ?p = "fst (MovementSystem_step sz (ps ! index) (ss ! index) (ms ! index))"
  let ?m = "snd (MovementSystem_step sz (ps ! index) (ss ! index) (ms ! index))"
  let ?e1 = "e\<lparr>m_storage := [RenderVec rs, SizeVec ss, PositionVec (ps[index := ?p]), MovementVec (ms[index := ?m])]\<rparr>"
  have body: "MovementSystem_body sz index e = Inr ?e1"
    using Suc.prems lt by (intro MovementSystem_body_shape) auto
  have unfold: "MovementSystem_loop n sz index e = MovementSystem_loop n sz (index + 1) ?e1"
    using lt body by (simp add: MovementSystem_loop.simps [of n sz index e])
  have "d = n - (index + 1)" using Suc.hyps(2) by simp
  moreover have "m_storage ?e1 = [RenderVec rs, SizeVec ss, PositionVec (ps[index := ?p]), MovementVec (ms[index := ?m])]"
    by simp
  ultimately obtain ps' ms' where
    res: "MovementSystem_loop n sz (index + 1) ?e1 =
            Inr (?e1\<lparr>m_storage := [RenderVec rs, SizeVec ss, PositionVec ps', MovementVec ms']\<rparr>)"
    and len: "length ps' = length (ps[index := ?p])" "length ms' = length (ms[index := ?m])"
    and P: "\<forall>i < length (ps[index := ?p]). ps' ! i = (if index + 1 \<le> i \<and> i < n
            then fst (MovementSystem_step sz (ps[index := ?p] ! i) (ss ! i) (ms[index := ?m] ! i))
            else ps[index := ?p] ! i)"
    and M: "\<forall>i < length (ms[index := ?m]). ms' ! i = (if index + 1 \<le> i \<and> i < n
            then snd (MovementSystem_step sz (ps[index := ?p] ! i) (ss ! i) (ms[index := ?m] ! i))
            else ms[index := ?m] ! i)"
    using Suc.hyps(1) [of "index + 1" ?e1 "ps[index := ?p]" "ms[index := ?m]"] Suc.prems
    by auto
  have "MovementSystem_loop n sz index e =
      Inr (e\<lparr>m_storage := [RenderVec rs, SizeVec ss, PositionVec ps', MovementVec ms']\<rparr>)"
    using unfold res by simp
  moreover have "\<forall>i < length ps. ps' ! i = (if index \<le> i \<and> i < n
            then fst (MovementSystem_step sz (ps ! i) (ss ! i) (ms ! i)) else ps ! i)"
    using P lt Suc.prems by (auto simp: nth_list_update)
  moreover have "\<forall>i < length ms. ms' ! i = (if index \<le> i \<and> i < n
            then snd (MovementSystem_step sz (ps ! i) (ss ! i) (ms ! i)) else ms ! i)"
    using M lt Suc.prems by (auto simp: nth_list_update)
  ultimately show ?case using len
    by (intro exI [of _ ps'] exI [of _ ms']) simp
qed

section \<open>Basic facts\<close>

lemma bind_fault_Inr [simp]: "bind_fault (Inr v) f = f v"
  by (simp add: bind_fault_def)

lemma bind_fault_Inl [simp]: "bind_fault (Inl err) f = Inl err"
  by (simp add: bind_fault_def)

lemma declared_size_put: "declared T \<Longrightarrow> StorageItemType_size (std_put T v) = length v"
  by (simp add: declared_def)

lemma declared_put_inj: "declared T \<Longrightarrow> std_put T u = std_put T v \<Longrightarrow> u = v"
  by (metis declared_get_put option.inject)

lemma ECS_ctor_invariant: "ECS_invariant ECS_ctor"
  by (simp add: ECS_invariant_shape ECS_ctor_eq)

lemma add_component_declared:
  assumes "declared T" "ECS_invariant e"
  shows "\<exists>xs. components_container T e = Inr xs \<and>
     add_component T v e =
       Inr (e\<lparr>m_storage := (m_storage e)[container_slot (ContainerType_of T) := std_put T (xs @ [v])]\<rparr>)"
proof -
  from components_container_declared [OF assms] obtain xs where "components_container T e = Inr xs" ..
  then show ?thesis by (auto simp: add_component_iff)
qed

lemma add_component_twice:
  assumes "declared A" "ECS_invariant e" "components_container A e = Inr xs"
  shows "bind_fault (add_component A a e) (add_component A a') =
     Inr (e\<lparr>m_storage := (m_storage e)[container_slot (ContainerType_of A) := std_put A (xs @ [a, a'])]\<rparr>)"
proof -
  let ?i = "container_slot (ContainerType_of A)"
  let ?e1 = "e\<lparr>m_storage := (m_storage e)[?i := std_put A (xs @ [a])]\<rparr>"
  have lt: "?i < length (m_storage e)"
    using assms(3) by (simp add: components_container_iff)
  have 1: "add_component A a e = Inr ?e1"
    using assms(3) by (simp add: add_component_iff)
  have "components_container A ?e1 = Inr (xs @ [a])"
    using lt by (simp add: components_container_update_same [OF assms(1)])
  then have "add_component A a' ?e1 =
      Inr (?e1\<lparr>m_storage := (m_storage ?e1)[?i := std_put A ((xs @ [a]) @ [a'])]\<rparr>)"
    by (simp add: add_component_iff)
  with 1 show ?thesis by simp
qed

section \<open>Adding components\<close>

text \<open>
  Claim C6. For a declared component type \<open>T\<close> and an ECS that satisfies the class invariant,
  \<open>add_component\<close> of a value \<open>v\<close> succeeds. Afterwards the container of \<open>T\<close> is the
  old container with \<open>v\<close> appended, so it is one element longer and its last element is
  \<open>v\<close>; the slot of every other container type holds what it held before, the array
  has the same number of slots, and the list of registered systems is the same.
\<close>

theorem add_component_appends:
  assumes "declared T" and "ECS_invariant e"
  shows "\<exists>xs e'. components_container T e = Inr xs \<and> add_component T v e = Inr e' \<and>
           components_container T e' = Inr (xs @ [v]) \<and>
           length (xs @ [v]) = length xs + 1 \<and> last (xs @ [v]) = v \<and>
           (\<forall>C. C \<noteq> ContainerType_of T \<longrightarrow>
                m_storage e' ! container_slot C = m_storage e ! container_slot C) \<and>
           length (m_storage e') = length (m_storage e) \<and>
           m_systems e' = m_systems e \<and> ECS_invariant e'"
proof -
  let ?i = "container_slot (ContainerType_of T)"
  from add_component_declared [OF assms] obtain xs where
    xs: "components_container T e = Inr xs" and
    add: "add_component T v e = Inr (e\<lparr>m_storage := (m_storage e)[?i := std_put T (xs @ [v])]\<rparr>)"
    by blast
  let ?e' = "e\<lparr>m_storage := (m_storage e)[?i := std_put T (xs @ [v])]\<rparr>"
  have "?i < length (m_storage e)"
    using xs by (simp add: components_container_iff)
  then have "components_container T ?e' = Inr (xs @ [v])"
    by (simp add: components_container_update_same [OF assms(1)])
  moreover have "\<forall>C. C \<noteq> ContainerType_of T \<longrightarrow>
      m_storage ?e' ! container_slot C = m_storage e ! container_slot C"
    by (simp add: container_slot_inj)
  moreover have "ECS_invariant ?e'"
    using assms by (intro ECS_invariant_update) (simp_all add: declared_holds_put)
  ultimately show ?thesis using xs add by simp
qed

theorem add_component_appends_witness:
  "declared (SizeComponent_t :: (SizeComponent, real) ComponentType) \<and>
   ECS_invariant (ECS_ctor :: real ECS) \<and>
   (\<exists>e'. add_component SizeComponent_t \<lparr>size_vec = \<lparr>vec_x = 15, vec_y = 15\<rparr>\<rparr> (ECS_ctor :: real ECS) = Inr e' \<and>
      components_container SizeComponent_t e' = Inr [\<lparr>size_vec = \<lparr>vec_x = 15, vec_y = 15\<rparr>\<rparr>] \<and>
      m_storage e' ! container_slot PositionContainer = PositionVec [] \<and>
      m_systems e' = [])"
proof -
  have d: "declared (SizeComponent_t :: (SizeComponent, real) ComponentType)"
    by (rule declared_SizeComponent_t)
  have i: "ECS_invariant (ECS_ctor :: real ECS)"
    by (rule ECS_ctor_invariant)
  have c: "components_container SizeComponent_t (ECS_ctor :: real ECS) = Inr []"
    by (simp add: components_container_shape ECS_ctor_eq)
  from add_component_appends [OF d i, of "\<lparr>size_vec = \<lparr>vec_x = 15, vec_y = 15\<rparr>\<rparr>"]
  obtain xs e' where
    "components_container SizeComponent_t (ECS_ctor :: real ECS) = Inr xs"
    "add_component SizeComponent_t \<lparr>size_vec = \<lparr>vec_x = 15, vec_y = 15\<rparr>\<rparr> (ECS_ctor :: real ECS) = Inr e'"
    "components_container SizeComponent_t e' = Inr (xs @ [\<lparr>size_vec = \<lparr>vec_x = 15, vec_y = 15\<rparr>\<rparr>])"
    "\<forall>C. C \<noteq> ContainerType_of (SizeComponent_t :: (SizeComponent, real) ComponentType) \<longrightarrow>
         m_storage e' ! container_slot C = m_storage (ECS_ctor :: real ECS) ! container_slot C"
    "m_systems e' = m_systems (ECS_ctor :: real ECS)"
    by blast
  with c d i show ?thesis
    by (auto simp: ContainerType_of_simps ECS_ctor_eq container_slot_def)
qed

text \<open>
  Claim C10. For two declared component types \<open>A\<close> and \<open>B\<close> with different containers,
  adding \<open>a\<close> then \<open>b\<close> and adding \<open>b\<close> then \<open>a\<close> both succeed and give the same ECS.
  Within one type the order does matter: adding two different values \<open>a\<close> and \<open>a'\<close> of
  type \<open>A\<close> in the two orders gives two different results.
\<close>

theorem add_component_commutes:
  assumes "declared A" and "declared B" and "ContainerType_of A \<noteq> ContainerType_of B"
    and "ECS_invariant e"
  shows "(\<exists>e'. bind_fault (add_component A a e) (add_component B b) = Inr e' \<and>
              bind_fault (add_component B b e) (add_component A a) = Inr e') \<and>
         (a \<noteq> a' \<longrightarrow> bind_fault (add_component A a e) (add_component A a')
                   \<noteq> bind_fault (add_component A a' e) (add_component A a))"
proof
  let ?i = "container_slot (ContainerType_of A)" and ?j = "container_slot (ContainerType_of B)"
  have ne: "?i \<noteq> ?j" using assms(3) by (simp add: container_slot_inj)
  from add_component_declared [OF assms(1,4)] obtain xs where
    xs: "components_container A e = Inr xs" and
    addA: "add_component A a e = Inr (e\<lparr>m_storage := (m_storage e)[?i := std_put A (xs @ [a])]\<rparr>)"
    by blast
  from add_component_declared [OF assms(2,4)] obtain ys where
    ys: "components_container B e = Inr ys" and
    addB: "add_component B b e = Inr (e\<lparr>m_storage := (m_storage e)[?j := std_put B (ys @ [b])]\<rparr>)"
    by blast
  let ?eA = "e\<lparr>m_storage := (m_storage e)[?i := std_put A (xs @ [a])]\<rparr>"
  let ?eB = "e\<lparr>m_storage := (m_storage e)[?j := std_put B (ys @ [b])]\<rparr>"
  have "components_container B ?eA = Inr ys"
    using ys assms(3) by (simp add: components_container_update_other)
  then have AB: "add_component B b ?eA =
      Inr (e\<lparr>m_storage := (m_storage e)[?i := std_put A (xs @ [a]), ?j := std_put B (ys @ [b])]\<rparr>)"
    by (simp add: add_component_iff)
  have "components_container A ?eB = Inr xs"
    using xs assms(3) by (simp add: components_container_update_other)
  then have BA: "add_component A a ?eB =
      Inr (e\<lparr>m_storage := (m_storage e)[?j := std_put B (ys @ [b]), ?i := std_put A (xs @ [a])]\<rparr>)"
    by (simp add: add_component_iff)
  have "(m_storage e)[?i := std_put A (xs @ [a]), ?j := std_put B (ys @ [b])] =
        (m_storage e)[?j := std_put B (ys @ [b]), ?i := std_put A (xs @ [a])]"
    using ne by (simp add: list_update_swap)
  then show "\<exists>e'. bind_fault (add_component A a e) (add_component B b) = Inr e' \<and>
              bind_fault (add_component B b e) (add_component A a) = Inr e'"
    by (simp add: addA addB AB BA)
  show "a \<noteq> a' \<longrightarrow> bind_fault (add_component A a e) (add_component A a')
                   \<noteq> bind_fault (add_component A a' e) (add_component A a)"
  proof (intro impI notI)
    assume "a \<noteq> a'"
    assume "bind_fault (add_component A a e) (add_component A a')
                   = bind_fault (add_component A a' e) (add_component A a)"
    then have "(m_storage e)[?i := std_put A (xs @ [a, a'])] = (m_storage e)[?i := std_put A (xs @ [a', a])]"
      by (simp add: add_component_twice [OF assms(1,4) xs])
        (metis ECS.select_convs(1) ECS.surjective ECS.update_convs(1))
    moreover have "?i < length (m_storage e)"
      using xs by (simp add: components_container_iff)
    ultimately have "std_put A (xs @ [a, a']) = std_put A (xs @ [a', a])"
      by (metis nth_list_update_eq)
    then have "xs @ [a, a'] = xs @ [a', a]"
      by (rule declared_put_inj [OF assms(1)])
    with \<open>a \<noteq> a'\<close> show False by simp
  qed
qed

theorem add_component_commutes_witness:
  "declared (PositionComponent_t :: (PositionComponent, real) ComponentType) \<and>
   declared (MovementComponent_t :: (MovementComponent, real) ComponentType) \<and>
   ContainerType_of (PositionComponent_t :: (PositionComponent, real) ComponentType)
     \<noteq> ContainerType_of (MovementComponent_t :: (MovementComponent, real) ComponentType) \<and>
   ECS_invariant (ECS_ctor :: real ECS) \<and>
   (\<exists>e'. bind_fault (add_component PositionComponent_t \<lparr>pos = \<lparr>vec_x = 100, vec_y = 100\<rparr>\<rparr> (ECS_ctor :: real ECS))
            (add_component MovementComponent_t \<lparr>offset = \<lparr>vec_x = 5, vec_y = - 3\<rparr>\<rparr>) = Inr e' \<and>
          bind_fault (add_component MovementComponent_t \<lparr>offset = \<lparr>vec_x = 5, vec_y = - 3\<rparr>\<rparr> (ECS_ctor :: real ECS))
            (add_component PositionComponent_t \<lparr>pos = \<lparr>vec_x = 100, vec_y = 100\<rparr>\<rparr>) = Inr e') \<and>
   bind_fault (add_component PositionComponent_t \<lparr>pos = \<lparr>vec_x = 100, vec_y = 100\<rparr>\<rparr> (ECS_ctor :: real ECS))
       (add_component PositionComponent_t \<lparr>pos = \<lparr>vec_x = 0, vec_y = 0\<rparr>\<rparr>)
     \<noteq> bind_fault (add_component PositionComponent_t \<lparr>pos = \<lparr>vec_x = 0, vec_y = 0\<rparr>\<rparr> (ECS_ctor :: real ECS))
       (add_component PositionComponent_t \<lparr>pos = \<lparr>vec_x = 100, vec_y = 100\<rparr>\<rparr>)"
proof -
  have d1: "declared (PositionComponent_t :: (PositionComponent, real) ComponentType)"
    by (rule declared_PositionComponent_t)
  have d2: "declared (MovementComponent_t :: (MovementComponent, real) ComponentType)"
    by (rule declared_MovementComponent_t)
  have ne: "ContainerType_of (PositionComponent_t :: (PositionComponent, real) ComponentType)
     \<noteq> ContainerType_of (MovementComponent_t :: (MovementComponent, real) ComponentType)"
    by (simp add: ContainerType_of_simps)
  have i: "ECS_invariant (ECS_ctor :: real ECS)"
    by (rule ECS_ctor_invariant)
  have neq: "\<lparr>pos = \<lparr>vec_x = 100, vec_y = 100\<rparr>\<rparr> \<noteq> \<lparr>pos = \<lparr>vec_x = 0, vec_y = 0\<rparr>\<rparr>"
    by simp
  show ?thesis
    using d1 d2 ne i neq
      add_component_commutes [OF d1 d2 ne i, of "\<lparr>pos = \<lparr>vec_x = 100, vec_y = 100\<rparr>\<rparr>"
        "\<lparr>offset = \<lparr>vec_x = 5, vec_y = - 3\<rparr>\<rparr>" "\<lparr>pos = \<lparr>vec_x = 0, vec_y = 0\<rparr>\<rparr>"]
    by blast
qed

section \<open>The order of the systems\<close>




section \<open>One tick of the movement system\<close>

lemma MovementSystem_update_shape:
  assumes "m_storage e = [RenderVec rs, SizeVec ss, PositionVec ps, MovementVec ms]"
    and "n \<le> length ps" "n \<le> length ss" "n \<le> length ms"
  shows "\<exists>ps' ms'. MovementSystem_update n sz e =
           Inr (e\<lparr>m_storage := [RenderVec rs, SizeVec ss, PositionVec ps', MovementVec ms']\<rparr>) \<and>
         length ps' = length ps \<and> length ms' = length ms \<and>
         (\<forall>i < length ps. ps' ! i = (if i < n
            then fst (MovementSystem_step sz (ps ! i) (ss ! i) (ms ! i)) else ps ! i)) \<and>
         (\<forall>i < length ms. ms' ! i = (if i < n
            then snd (MovementSystem_step sz (ps ! i) (ss ! i) (ms ! i)) else ms ! i))"
  using MovementSystem_loop_shape [OF assms, of sz 0]
  by (simp add: MovementSystem_update_def)

lemma MovementSystem_update_char:
  assumes inv: "ECS_invariant e"
    and cs: "components_container PositionComponent_t e = Inr ps"
      "components_container SizeComponent_t e = Inr ss"
      "components_container MovementComponent_t e = Inr ms"
    and len: "n \<le> length ps" "n \<le> length ss" "n \<le> length ms"
  shows "\<exists>e' ps' ms'. MovementSystem_update n sz e = Inr e' \<and>
         ECS_invariant e' \<and> m_systems e' = m_systems e \<and>
         components_container RenderComponent_t e' = components_container RenderComponent_t e \<and>
         components_container SizeComponent_t e' = Inr ss \<and>
         components_container PositionComponent_t e' = Inr ps' \<and>
         components_container MovementComponent_t e' = Inr ms' \<and>
         length ps' = length ps \<and> length ms' = length ms \<and>
         (\<forall>i < length ps. ps' ! i = (if i < n
            then fst (MovementSystem_step sz (ps ! i) (ss ! i) (ms ! i)) else ps ! i)) \<and>
         (\<forall>i < length ms. ms' ! i = (if i < n
            then snd (MovementSystem_step sz (ps ! i) (ss ! i) (ms ! i)) else ms ! i))"
proof -
  from inv obtain rs ss0 ps0 ms0 where
    shape: "m_storage e = [RenderVec rs, SizeVec ss0, PositionVec ps0, MovementVec ms0]"
    by (auto simp: ECS_invariant_shape)
  from cs components_container_shape [OF shape] have eq: "ss0 = ss" "ps0 = ps" "ms0 = ms"
    by simp_all
  from MovementSystem_update_shape [OF shape [unfolded eq] len, of sz]
  obtain ps' ms' where
    upd: "MovementSystem_update n sz e =
           Inr (e\<lparr>m_storage := [RenderVec rs, SizeVec ss, PositionVec ps', MovementVec ms']\<rparr>)"
    and rest: "length ps' = length ps" "length ms' = length ms"
      "\<forall>i < length ps. ps' ! i = (if i < n
            then fst (MovementSystem_step sz (ps ! i) (ss ! i) (ms ! i)) else ps ! i)"
      "\<forall>i < length ms. ms' ! i = (if i < n
            then snd (MovementSystem_step sz (ps ! i) (ss ! i) (ms ! i)) else ms ! i)"
    by blast
  let ?e' = "e\<lparr>m_storage := [RenderVec rs, SizeVec ss, PositionVec ps', MovementVec ms']\<rparr>"
  have shape': "m_storage ?e' = [RenderVec rs, SizeVec ss, PositionVec ps', MovementVec ms']"
    by simp
  have "ECS_invariant ?e'"
    unfolding ECS_invariant_shape using shape' by blast
  moreover have "components_container RenderComponent_t ?e' = components_container RenderComponent_t e"
    using components_container_shape(1) [OF shape'] components_container_shape(1) [OF shape]
    by simp
  ultimately show ?thesis
    using upd rest components_container_shape(2,3,4) [OF shape']
    by (intro exI [of _ ?e'] exI [of _ ps'] exI [of _ ms']) simp
qed

lemma MovementSystem_update_single:
  "MovementSystem_update 1 sz
      \<lparr>m_storage = [RenderVec rs, SizeVec [s], PositionVec [p], MovementVec [m]], m_systems = systems\<rparr>
    = Inr \<lparr>m_storage = [RenderVec rs, SizeVec [s],
              PositionVec [fst (MovementSystem_step sz p s m)],
              MovementVec [snd (MovementSystem_step sz p s m)]], m_systems = systems\<rparr>"
proof -
  let ?e = "\<lparr>m_storage = [RenderVec rs, SizeVec [s], PositionVec [p], MovementVec [m]], m_systems = systems\<rparr>"
  have "MovementSystem_body sz 0 ?e =
     Inr (?e\<lparr>m_storage := [RenderVec rs, SizeVec [s],
       PositionVec ([p][0 := fst (MovementSystem_step sz ([p] ! 0) ([s] ! 0) ([m] ! 0))]),
       MovementVec ([m][0 := snd (MovementSystem_step sz ([p] ! 0) ([s] ! 0) ([m] ! 0))])]\<rparr>)"
    by (rule MovementSystem_body_shape) simp_all
  then show ?thesis
    by (simp add: MovementSystem_update_def MovementSystem_loop.simps [of _ _ 0]
        MovementSystem_loop.simps [of _ _ "Suc 0"])
qed

text \<open>
  Claim C1. Let the ECS satisfy the class invariant and let the position, size and movement
  containers have at least \<open>n\<close> elements, where \<open>n\<close> is the entity count. Then one
  \<open>MovementSystem_update\<close> returns, and for every entity \<open>index < n\<close>: on each axis the
  offset after the tick is the negated offset when the position before the tick plus half
  the size exceeds the extent of the domain or the position minus half the size is below
  zero, and the unchanged offset otherwise; and the position after the tick is the position
  before the tick plus the offset after the tick, so a reflection acts on the move of the
  same tick.
\<close>

theorem MovementSystem_update_entity:
  assumes "ECS_invariant e"
    and "components_container PositionComponent_t e = Inr ps"
    and "components_container SizeComponent_t e = Inr ss"
    and "components_container MovementComponent_t e = Inr ms"
    and "n \<le> length ps" and "n \<le> length ss" and "n \<le> length ms"
    and "index < n"
  shows "\<exists>e' p' m'. MovementSystem_update n m_size e = Inr e' \<and>
      component PositionComponent_t index e' = Inr p' \<and>
      component MovementComponent_t index e' = Inr m' \<and>
      vec_x (offset m') =
        (if int_greater (vec_x (pos (ps ! index)) + int_div (vec_x (size_vec (ss ! index))) 2) (width m_size)
            \<or> int_less (vec_x (pos (ps ! index)) - int_div (vec_x (size_vec (ss ! index))) 2) 0
         then - vec_x (offset (ms ! index)) else vec_x (offset (ms ! index))) \<and>
      vec_y (offset m') =
        (if int_greater (vec_y (pos (ps ! index)) + int_div (vec_y (size_vec (ss ! index))) 2) (height m_size)
            \<or> int_less (vec_y (pos (ps ! index)) - int_div (vec_y (size_vec (ss ! index))) 2) 0
         then - vec_y (offset (ms ! index)) else vec_y (offset (ms ! index))) \<and>
      vec_x (pos p') = vec_x (pos (ps ! index)) + vec_x (offset m') \<and>
      vec_y (pos p') = vec_y (pos (ps ! index)) + vec_y (offset m')"
proof -
  from MovementSystem_update_char [OF assms(1-7), of m_size]
  obtain e' ps' ms' where
    upd: "MovementSystem_update n m_size e = Inr e'"
    and cs: "components_container PositionComponent_t e' = Inr ps'"
      "components_container MovementComponent_t e' = Inr ms'"
    and len: "length ps' = length ps" "length ms' = length ms"
    and P: "\<forall>i < length ps. ps' ! i = (if i < n
            then fst (MovementSystem_step m_size (ps ! i) (ss ! i) (ms ! i)) else ps ! i)"
    and M: "\<forall>i < length ms. ms' ! i = (if i < n
            then snd (MovementSystem_step m_size (ps ! i) (ss ! i) (ms ! i)) else ms ! i)"
    by blast
  let ?st = "MovementSystem_step m_size (ps ! index) (ss ! index) (ms ! index)"
  have p': "component PositionComponent_t index e' = Inr (fst ?st)"
    using cs len P assms(5,8) by (simp add: component_iff)
  have m': "component MovementComponent_t index e' = Inr (snd ?st)"
    using cs len M assms(7,8) by (simp add: component_iff)
  show ?thesis
    using upd p' m'
    by (intro exI [of _ e'] exI [of _ "fst ?st"] exI [of _ "snd ?st"])
      (simp add: MovementSystem_step_def Let_def Vector2i_plus_def)
qed

theorem MovementSystem_update_entity_witness:
  "\<exists>e' p' m'. MovementSystem_update 1 \<lparr>width = 800, height = 600\<rparr>
       (\<lparr>m_storage = [RenderVec [], SizeVec [\<lparr>size_vec = \<lparr>vec_x = 2, vec_y = 2\<rparr>\<rparr>],
           PositionVec [\<lparr>pos = \<lparr>vec_x = 0, vec_y = 0\<rparr>\<rparr>],
           MovementVec [\<lparr>offset = \<lparr>vec_x = - 5, vec_y = - 5\<rparr>\<rparr>]], m_systems = []\<rparr> :: real ECS) = Inr e' \<and>
      component PositionComponent_t 0 e' = Inr p' \<and>
      component MovementComponent_t 0 e' = Inr m' \<and>
      vec_x (offset m') = 5 \<and> vec_y (offset m') = 5 \<and>
      vec_x (pos p') = 5 \<and> vec_y (pos p') = 5"
proof -
  let ?e = "\<lparr>m_storage = [RenderVec [], SizeVec [\<lparr>size_vec = \<lparr>vec_x = 2, vec_y = 2\<rparr>\<rparr>],
           PositionVec [\<lparr>pos = \<lparr>vec_x = 0, vec_y = 0\<rparr>\<rparr>],
           MovementVec [\<lparr>offset = \<lparr>vec_x = - 5, vec_y = - 5\<rparr>\<rparr>]], m_systems = []\<rparr> :: real ECS"
  have shape: "m_storage ?e = [RenderVec [], SizeVec [\<lparr>size_vec = \<lparr>vec_x = 2, vec_y = 2\<rparr>\<rparr>],
           PositionVec [\<lparr>pos = \<lparr>vec_x = 0, vec_y = 0\<rparr>\<rparr>],
           MovementVec [\<lparr>offset = \<lparr>vec_x = - 5, vec_y = - 5\<rparr>\<rparr>]]"
    by simp
  have i: "ECS_invariant ?e"
    unfolding ECS_invariant_shape using shape by blast
  have half: "int_div 2 2 = 1"
    by (simp add: int_div_def signed_divide_int_def)
  show ?thesis
    using MovementSystem_update_entity [OF i components_container_shape(3) [OF shape]
        components_container_shape(2) [OF shape] components_container_shape(4) [OF shape],
        of 1 0 "\<lparr>width = 800, height = 600\<rparr>"]
    by (simp add: half int_less_def int_greater_def) metis
qed

text \<open>
  Claim C4. One entity at position (795, 300) with half-extent (2, 2), that is with a size
  whose halves are 2, and offset (50, 0) in the domain 800 by 600: one tick of the movement
  system leaves the offset as it is, since the far edge 797 does not exceed 800, and
  moves the entity to (845, 300), beyond the extent 800 of the domain.
\<close>

theorem tunnelling_example:
  assumes "int_div sx 2 = 2" and "int_div sy 2 = 2"
  shows "MovementSystem_update 1 \<lparr>width = 800, height = 600\<rparr>
      \<lparr>m_storage = [RenderVec rs, SizeVec [\<lparr>size_vec = \<lparr>vec_x = sx, vec_y = sy\<rparr>\<rparr>],
         PositionVec [\<lparr>pos = \<lparr>vec_x = 795, vec_y = 300\<rparr>\<rparr>],
         MovementVec [\<lparr>offset = \<lparr>vec_x = 50, vec_y = 0\<rparr>\<rparr>]], m_systems = systems\<rparr>
    = Inr \<lparr>m_storage = [RenderVec rs, SizeVec [\<lparr>size_vec = \<lparr>vec_x = sx, vec_y = sy\<rparr>\<rparr>],
         PositionVec [\<lparr>pos = \<lparr>vec_x = 845, vec_y = 300\<rparr>\<rparr>],
         MovementVec [\<lparr>offset = \<lparr>vec_x = 50, vec_y = 0\<rparr>\<rparr>]], m_systems = systems\<rparr>
    \<and> \<not> int_greater (795 + int_div sx 2) 800
    \<and> int_greater 845 800"
proof -
  have step: "MovementSystem_step \<lparr>width = 800, height = 600\<rparr> \<lparr>pos = \<lparr>vec_x = 795, vec_y = 300\<rparr>\<rparr>
      \<lparr>size_vec = \<lparr>vec_x = sx, vec_y = sy\<rparr>\<rparr> \<lparr>offset = \<lparr>vec_x = 50, vec_y = 0\<rparr>\<rparr>
     = (\<lparr>pos = \<lparr>vec_x = 845, vec_y = 300\<rparr>\<rparr>, \<lparr>offset = \<lparr>vec_x = 50, vec_y = 0\<rparr>\<rparr>)"
    using assms
    by (simp add: MovementSystem_step_def int_greater_def int_less_def Vector2i_plus_def)
  show ?thesis
    using assms
      MovementSystem_update_single [of "\<lparr>width = 800, height = 600\<rparr>" rs
        "\<lparr>size_vec = \<lparr>vec_x = sx, vec_y = sy\<rparr>\<rparr>" "\<lparr>pos = \<lparr>vec_x = 795, vec_y = 300\<rparr>\<rparr>"
        "\<lparr>offset = \<lparr>vec_x = 50, vec_y = 0\<rparr>\<rparr>" systems]
    by (simp add: step int_greater_def)
qed

theorem tunnelling_example_witness:
  "int_div 4 2 = 2 \<and>
   MovementSystem_update 1 \<lparr>width = 800, height = 600\<rparr>
      \<lparr>m_storage = [RenderVec [\<lparr>color = Colorf (1 :: real) 1 1 1\<rparr>],
         SizeVec [\<lparr>size_vec = \<lparr>vec_x = 4, vec_y = 4\<rparr>\<rparr>],
         PositionVec [\<lparr>pos = \<lparr>vec_x = 795, vec_y = 300\<rparr>\<rparr>],
         MovementVec [\<lparr>offset = \<lparr>vec_x = 50, vec_y = 0\<rparr>\<rparr>]], m_systems = []\<rparr>
    = Inr \<lparr>m_storage = [RenderVec [\<lparr>color = Colorf (1 :: real) 1 1 1\<rparr>],
         SizeVec [\<lparr>size_vec = \<lparr>vec_x = 4, vec_y = 4\<rparr>\<rparr>],
         PositionVec [\<lparr>pos = \<lparr>vec_x = 845, vec_y = 300\<rparr>\<rparr>],
         MovementVec [\<lparr>offset = \<lparr>vec_x = 50, vec_y = 0\<rparr>\<rparr>]], m_systems = []\<rparr>"
proof -
  have h: "int_div 4 2 = 2"
    by (simp add: int_div_def signed_divide_int_def)
  show ?thesis
    using h tunnelling_example [OF h h, of "[\<lparr>color = Colorf (1 :: real) 1 1 1\<rparr>]" "[]"]
    by simp
qed

section \<open>One tick of the render system\<close>

lemma RenderSystem_update_single:
  "RenderSystem_update to_float 1 mesh shader
     (\<lparr>m_storage = [RenderVec [r], SizeVec [s], PositionVec [p], MovementVec ms],
       m_systems = systems\<rparr>, renderer)
   = Inr (\<lparr>m_storage = [RenderVec [r], SizeVec [s], PositionVec [p], MovementVec ms],
           m_systems = systems\<rparr>,
       renderer @ [\<lparr>mesh_id = mesh, shader_id = shader, uniforms =
          [(''pos'', UniformVector3f (Vector3f_of to_float (pos p) 0)),
           (''size'', UniformVector3f (Vector3f_of to_float (size_vec s) 1)),
           (''color'', UniformColorf (color r))]\<rparr>])"
proof -
  let ?e = "\<lparr>m_storage = [RenderVec [r], SizeVec [s], PositionVec [p], MovementVec ms],
       m_systems = systems\<rparr>"
  have shape: "m_storage ?e = [RenderVec [r], SizeVec [s], PositionVec [p], MovementVec ms]"
    by simp
  have r: "component RenderComponent_t 0 ?e = Inr r"
    "component SizeComponent_t 0 ?e = Inr s"
    "component PositionComponent_t 0 ?e = Inr p"
    unfolding component_iff components_container_shape [OF shape] by simp_all
  show ?thesis
    by (simp add: RenderSystem_update_def RenderSystem_loop.simps [of _ _ _ _ 0]
        RenderSystem_loop.simps [of _ _ _ _ "Suc 0"] RenderSystem_body_def r
        Renderer_render_def)
qed

text \<open>
  Claim C7. One entity with color (0.5, 0.6, 0.6, 1.0), size (15, 15) and position
  (100, 100), an entity count of one and an empty queue: one \<open>RenderSystem_update\<close> leaves
  exactly one draw in the queue, for the mesh and the shader of the system, and its uniforms
  are the position and the size, each converted to a float vector with a third coordinate
  0 and 1, and the color as it is stored.
\<close>

theorem render_submission_example:
  "RenderSystem_update to_float 1 mesh shader
     (\<lparr>m_storage = [RenderVec [\<lparr>color = Colorf (0.5 :: real) 0.6 0.6 1.0\<rparr>],
         SizeVec [\<lparr>size_vec = \<lparr>vec_x = 15, vec_y = 15\<rparr>\<rparr>],
         PositionVec [\<lparr>pos = \<lparr>vec_x = 100, vec_y = 100\<rparr>\<rparr>],
         MovementVec ms], m_systems = systems\<rparr>, [])
   = Inr (\<lparr>m_storage = [RenderVec [\<lparr>color = Colorf (0.5 :: real) 0.6 0.6 1.0\<rparr>],
         SizeVec [\<lparr>size_vec = \<lparr>vec_x = 15, vec_y = 15\<rparr>\<rparr>],
         PositionVec [\<lparr>pos = \<lparr>vec_x = 100, vec_y = 100\<rparr>\<rparr>],
         MovementVec ms], m_systems = systems\<rparr>,
       [\<lparr>mesh_id = mesh, shader_id = shader, uniforms =
          [(''pos'', UniformVector3f (Vector3f (to_float 100) (to_float 100) (to_float 0))),
           (''size'', UniformVector3f (Vector3f (to_float 15) (to_float 15) (to_float 1))),
           (''color'', UniformColorf (Colorf 0.5 0.6 0.6 1.0))]\<rparr>])"
  using RenderSystem_update_single [of to_float mesh shader "\<lparr>color = Colorf (0.5 :: real) 0.6 0.6 1.0\<rparr>"
      "\<lparr>size_vec = \<lparr>vec_x = 15, vec_y = 15\<rparr>\<rparr>" "\<lparr>pos = \<lparr>vec_x = 100, vec_y = 100\<rparr>\<rparr>"
      ms systems "[]"]
  by (simp add: Vector3f_of_def)


section \<open>The loop of the render system\<close>

lemma RenderSystem_body_shape:
  assumes "m_storage e = [RenderVec rs, SizeVec ss, PositionVec ps, MovementVec ms]"
    and "index < length rs" "index < length ss" "index < length ps"
  shows "RenderSystem_body to_float mesh shader index (e, renderer) =
    Inr (e, Renderer_render mesh shader
                 [(''pos'', UniformVector3f (Vector3f_of to_float (pos (ps ! index)) 0)),
                  (''size'', UniformVector3f (Vector3f_of to_float (size_vec (ss ! index)) 1)),
                  (''color'', UniformColorf (color (rs ! index)))]
                 renderer)"
proof -
  have r: "component RenderComponent_t index e = Inr (rs ! index)"
    "component SizeComponent_t index e = Inr (ss ! index)"
    "component PositionComponent_t index e = Inr (ps ! index)"
    using assms by (simp_all add: component_iff components_container_shape)
  show ?thesis
    by (simp add: RenderSystem_body_def r)
qed

lemma RenderSystem_loop_shape:
  assumes "m_storage e = [RenderVec rs, SizeVec ss, PositionVec ps, MovementVec ms]"
    and "n \<le> length rs" "n \<le> length ss" "n \<le> length ps"
  shows "\<exists>renderer'. RenderSystem_loop to_float n mesh shader index (e, renderer) = Inr (e, renderer') \<and>
           length renderer' = length renderer + (n - index)"
  using assms
proof (induction "n - index" arbitrary: index renderer)
  case 0
  then have "\<not> index < n" by simp
  then show ?case
    by (simp add: RenderSystem_loop.simps [of _ n _ _ index])
next
  case (Suc d)
  then have lt: "index < n" by simp
  let ?r1 = "Renderer_render mesh shader
                 [(''pos'', UniformVector3f (Vector3f_of to_float (pos (ps ! index)) 0)),
                  (''size'', UniformVector3f (Vector3f_of to_float (size_vec (ss ! index)) 1)),
                  (''color'', UniformColorf (color (rs ! index)))]
                 renderer"
  have body: "RenderSystem_body to_float mesh shader index (e, renderer) = Inr (e, ?r1)"
    using Suc.prems lt by (intro RenderSystem_body_shape) auto
  have unfold: "RenderSystem_loop to_float n mesh shader index (e, renderer) =
      RenderSystem_loop to_float n mesh shader (index + 1) (e, ?r1)"
    using lt body by (simp add: RenderSystem_loop.simps [of _ n _ _ index])
  have "d = n - (index + 1)" using Suc.hyps(2) by simp
  from Suc.hyps(1) [OF this Suc.prems, of ?r1]
  obtain renderer' where
    "RenderSystem_loop to_float n mesh shader (index + 1) (e, ?r1) = Inr (e, renderer')"
    "length renderer' = length ?r1 + (n - (index + 1))"
    by blast
  with unfold lt show ?case
    by (intro exI [of _ renderer']) (simp add: Renderer_render_def)
qed

lemma RenderSystem_body_fst:
  "RenderSystem_body to_float mesh shader index w = Inr w' \<Longrightarrow> fst w' = fst w"
  by (cases w) (auto simp: RenderSystem_body_def bind_fault_def split: sum.splits)

lemma RenderSystem_loop_fst:
  "RenderSystem_loop to_float n mesh shader index w = Inr w' \<Longrightarrow> fst w' = fst w"
proof (induction to_float n mesh shader index w rule: RenderSystem_loop.induct)
  case (1 to_float n mesh shader index w)
  show ?case
  proof (cases "index < n")
    case True
    with "1.prems" obtain w1 where
      b: "RenderSystem_body to_float mesh shader index w = Inr w1"
      and l: "RenderSystem_loop to_float n mesh shader (index + 1) w1 = Inr w'"
      by (auto simp: RenderSystem_loop.simps [of _ n _ _ index] split: sum.splits)
    from "1.IH" [OF True b l] RenderSystem_body_fst [OF b] show ?thesis by simp
  next
    case False
    with "1.prems" show ?thesis
      by (simp add: RenderSystem_loop.simps [of _ n _ _ index])
  qed
qed

section \<open>What a tick leaves unchanged\<close>

lemma assign_component_frame:
  assumes "assign_component T index v e = Inr e'"
  shows "m_systems e' = m_systems e \<and> length (m_storage e') = length (m_storage e) \<and>
         (\<forall>j. j \<noteq> container_slot (ContainerType_of T) \<longrightarrow> m_storage e' ! j = m_storage e ! j)"
  using assms by (auto simp: assign_component_iff)

lemma MovementSystem_body_frame:
  assumes "MovementSystem_body sz index e = Inr e'"
  shows "m_systems e' = m_systems e \<and> length (m_storage e') = length (m_storage e) \<and>
         m_storage e' ! 0 = m_storage e ! 0 \<and> m_storage e' ! 1 = m_storage e ! 1"
proof -
  from assms obtain p' m' e1 where
    a1: "assign_component MovementComponent_t index m' e = Inr e1"
    and a2: "assign_component PositionComponent_t index p' e1 = Inr e'"
    by (auto simp: MovementSystem_body_def bind_fault_def split: sum.splits prod.splits)
  from assign_component_frame [OF a1] assign_component_frame [OF a2] show ?thesis
    by (simp add: ContainerType_of_simps container_slot_def)
qed

lemma MovementSystem_loop_frame:
  "MovementSystem_loop n sz index e = Inr e' \<Longrightarrow>
     m_systems e' = m_systems e \<and> length (m_storage e') = length (m_storage e) \<and>
     m_storage e' ! 0 = m_storage e ! 0 \<and> m_storage e' ! 1 = m_storage e ! 1"
proof (induction n sz index e rule: MovementSystem_loop.induct)
  case (1 n sz index e)
  show ?case
  proof (cases "index < n")
    case True
    with "1.prems" obtain e1 where
      b: "MovementSystem_body sz index e = Inr e1"
      and l: "MovementSystem_loop n sz (index + 1) e1 = Inr e'"
      by (auto simp: MovementSystem_loop.simps [of n sz index e] split: sum.splits)
    from "1.IH" [OF True b l] MovementSystem_body_frame [OF b] show ?thesis by simp
  next
    case False
    with "1.prems" show ?thesis
      by (simp add: MovementSystem_loop.simps [of n sz index e])
  qed
qed

lemma components_container_cong:
  assumes "length (m_storage e') = length (m_storage e)"
    and "m_storage e' ! container_slot (ContainerType_of T) = m_storage e ! container_slot (ContainerType_of T)"
  shows "components_container T e' = components_container T e"
  using assms by (simp add: components_container_def component_index_v_eq at_index_def)

text \<open>
  Claim C8. Whenever \<open>MovementSystem_update\<close> returns, the container of the render
  components and the container of the size components are what they were before the tick,
  and so is every render component and every size component read by index: the system
  writes position and movement components only. Whenever \<open>RenderSystem_update\<close> returns,
  the whole ECS, with every container, is what it was before the tick.
\<close>

theorem systems_frame:
  "(MovementSystem_update n m_size e = Inr e' \<longrightarrow>
      components_container RenderComponent_t e' = components_container RenderComponent_t e \<and>
      components_container SizeComponent_t e' = components_container SizeComponent_t e \<and>
      (\<forall>index. component RenderComponent_t index e' = component RenderComponent_t index e \<and>
               component SizeComponent_t index e' = component SizeComponent_t index e)) \<and>
   (RenderSystem_update to_float n mesh shader (e, renderer) = Inr (e'', renderer') \<longrightarrow> e'' = e)"
proof (intro conjI impI)
  assume "MovementSystem_update n m_size e = Inr e'"
  then have f: "length (m_storage e') = length (m_storage e)"
    "m_storage e' ! 0 = m_storage e ! 0" "m_storage e' ! 1 = m_storage e ! 1"
    using MovementSystem_loop_frame [of n m_size 0 e e']
    by (simp_all add: MovementSystem_update_def)
  show r: "components_container RenderComponent_t e' = components_container RenderComponent_t e"
    using f by (intro components_container_cong) (simp_all add: ContainerType_of_simps container_slot_def)
  show s: "components_container SizeComponent_t e' = components_container SizeComponent_t e"
    using f by (intro components_container_cong) (simp_all add: ContainerType_of_simps container_slot_def)
  show "\<forall>index. component RenderComponent_t index e' = component RenderComponent_t index e \<and>
               component SizeComponent_t index e' = component SizeComponent_t index e"
    by (simp add: component_def r s)
next
  assume "RenderSystem_update to_float n mesh shader (e, renderer) = Inr (e'', renderer')"
  then show "e'' = e"
    using RenderSystem_loop_fst [of to_float n mesh shader 0 "(e, renderer)" "(e'', renderer')"]
    by (simp add: RenderSystem_update_def)
qed

theorem systems_frame_witness:
  "MovementSystem_update 1 \<lparr>width = 800, height = 600\<rparr>
      (\<lparr>m_storage = [RenderVec [\<lparr>color = Colorf (1 :: real) 1 1 1\<rparr>],
         SizeVec [\<lparr>size_vec = \<lparr>vec_x = 14, vec_y = 18\<rparr>\<rparr>],
         PositionVec [\<lparr>pos = \<lparr>vec_x = 150, vec_y = 150\<rparr>\<rparr>],
         MovementVec [\<lparr>offset = \<lparr>vec_x = 5, vec_y = - 3\<rparr>\<rparr>]], m_systems = []\<rparr>)
    = Inr \<lparr>m_storage = [RenderVec [\<lparr>color = Colorf (1 :: real) 1 1 1\<rparr>],
         SizeVec [\<lparr>size_vec = \<lparr>vec_x = 14, vec_y = 18\<rparr>\<rparr>],
         PositionVec [\<lparr>pos = \<lparr>vec_x = 155, vec_y = 147\<rparr>\<rparr>],
         MovementVec [\<lparr>offset = \<lparr>vec_x = 5, vec_y = - 3\<rparr>\<rparr>]], m_systems = []\<rparr> \<and>
   components_container RenderComponent_t
     \<lparr>m_storage = [RenderVec [\<lparr>color = Colorf (1 :: real) 1 1 1\<rparr>],
         SizeVec [\<lparr>size_vec = \<lparr>vec_x = 14, vec_y = 18\<rparr>\<rparr>],
         PositionVec [\<lparr>pos = \<lparr>vec_x = 155, vec_y = 147\<rparr>\<rparr>],
         MovementVec [\<lparr>offset = \<lparr>vec_x = 5, vec_y = - 3\<rparr>\<rparr>]], m_systems = []\<rparr>
    = components_container RenderComponent_t
     \<lparr>m_storage = [RenderVec [\<lparr>color = Colorf (1 :: real) 1 1 1\<rparr>],
         SizeVec [\<lparr>size_vec = \<lparr>vec_x = 14, vec_y = 18\<rparr>\<rparr>],
         PositionVec [\<lparr>pos = \<lparr>vec_x = 150, vec_y = 150\<rparr>\<rparr>],
         MovementVec [\<lparr>offset = \<lparr>vec_x = 5, vec_y = - 3\<rparr>\<rparr>]], m_systems = []\<rparr>"
proof -
  let ?e = "\<lparr>m_storage = [RenderVec [\<lparr>color = Colorf (1 :: real) 1 1 1\<rparr>],
         SizeVec [\<lparr>size_vec = \<lparr>vec_x = 14, vec_y = 18\<rparr>\<rparr>],
         PositionVec [\<lparr>pos = \<lparr>vec_x = 150, vec_y = 150\<rparr>\<rparr>],
         MovementVec [\<lparr>offset = \<lparr>vec_x = 5, vec_y = - 3\<rparr>\<rparr>]], m_systems = []\<rparr>"
  let ?e' = "\<lparr>m_storage = [RenderVec [\<lparr>color = Colorf (1 :: real) 1 1 1\<rparr>],
         SizeVec [\<lparr>size_vec = \<lparr>vec_x = 14, vec_y = 18\<rparr>\<rparr>],
         PositionVec [\<lparr>pos = \<lparr>vec_x = 155, vec_y = 147\<rparr>\<rparr>],
         MovementVec [\<lparr>offset = \<lparr>vec_x = 5, vec_y = - 3\<rparr>\<rparr>]], m_systems = []\<rparr>"
  have half: "int_div 14 2 = 7" "int_div 18 2 = 9"
    by (simp_all add: int_div_def signed_divide_int_def)
  have h: "MovementSystem_update 1 \<lparr>width = 800, height = 600\<rparr> ?e = Inr ?e'"
    using MovementSystem_update_single [of "\<lparr>width = 800, height = 600\<rparr>"
        "[\<lparr>color = Colorf (1 :: real) 1 1 1\<rparr>]" "\<lparr>size_vec = \<lparr>vec_x = 14, vec_y = 18\<rparr>\<rparr>"
        "\<lparr>pos = \<lparr>vec_x = 150, vec_y = 150\<rparr>\<rparr>" "\<lparr>offset = \<lparr>vec_x = 5, vec_y = - 3\<rparr>\<rparr>" "[]"]
    by (simp add: MovementSystem_step_def half int_greater_def int_less_def Vector2i_plus_def)
  from h systems_frame [of 1 "\<lparr>width = 800, height = 600\<rparr>" ?e ?e'] show ?thesis
    by blast
qed

section \<open>Accesses stay in bounds\<close>

text \<open>
  Claim C5. Let the ECS satisfy the class invariant and let each of the four containers have
  at least \<open>n\<close> elements, where \<open>n\<close> is the entity count the systems iterate by. Then
  \<open>MovementSystem_update\<close> and \<open>RenderSystem_update\<close> both return a state, so that no access
  of either loop took the branch \<open>OutOfBounds\<close>, and for every \<open>index < n\<close> the accessor
  \<open>component\<close> returns the element at position \<open>index\<close> of the container of its type.
\<close>

theorem accesses_in_bounds:
  assumes "ECS_invariant e"
    and "components_container RenderComponent_t e = Inr rs"
    and "components_container SizeComponent_t e = Inr ss"
    and "components_container PositionComponent_t e = Inr ps"
    and "components_container MovementComponent_t e = Inr ms"
    and "n \<le> length rs" and "n \<le> length ss" and "n \<le> length ps" and "n \<le> length ms"
  shows "(\<exists>e'. MovementSystem_update n m_size e = Inr e') \<and>
         (\<exists>w'. RenderSystem_update to_float n mesh shader (e, renderer) = Inr w') \<and>
         (\<forall>index < n.
            component RenderComponent_t index e = Inr (rs ! index) \<and>
            component SizeComponent_t index e = Inr (ss ! index) \<and>
            component PositionComponent_t index e = Inr (ps ! index) \<and>
            component MovementComponent_t index e = Inr (ms ! index))"
proof (intro conjI)
  from assms(1) obtain rs0 ss0 ps0 ms0 where
    shape: "m_storage e = [RenderVec rs0, SizeVec ss0, PositionVec ps0, MovementVec ms0]"
    by (auto simp: ECS_invariant_shape)
  from assms(2-5) components_container_shape [OF shape]
  have eq: "rs0 = rs" "ss0 = ss" "ps0 = ps" "ms0 = ms"
    by simp_all
  note shape = shape [unfolded eq]
  from MovementSystem_update_shape [OF shape assms(8,7,9), of m_size]
  show "\<exists>e'. MovementSystem_update n m_size e = Inr e'"
    by blast
  from RenderSystem_loop_shape [OF shape assms(6,7,8), of to_float mesh shader 0 renderer]
  show "\<exists>w'. RenderSystem_update to_float n mesh shader (e, renderer) = Inr w'"
    by (auto simp: RenderSystem_update_def)
  show "\<forall>index < n.
            component RenderComponent_t index e = Inr (rs ! index) \<and>
            component SizeComponent_t index e = Inr (ss ! index) \<and>
            component PositionComponent_t index e = Inr (ps ! index) \<and>
            component MovementComponent_t index e = Inr (ms ! index)"
    using assms(2-9) by (simp add: component_iff)
qed

theorem accesses_in_bounds_witness:
  "ECS_invariant (\<lparr>m_storage = [RenderVec [\<lparr>color = Colorf (1 :: real) 1 1 1\<rparr>],
         SizeVec [\<lparr>size_vec = \<lparr>vec_x = 14, vec_y = 18\<rparr>\<rparr>],
         PositionVec [\<lparr>pos = \<lparr>vec_x = 150, vec_y = 150\<rparr>\<rparr>],
         MovementVec [\<lparr>offset = \<lparr>vec_x = 5, vec_y = - 3\<rparr>\<rparr>]], m_systems = []\<rparr>) \<and>
   (\<exists>e'. MovementSystem_update 1 \<lparr>width = 800, height = 600\<rparr>
      (\<lparr>m_storage = [RenderVec [\<lparr>color = Colorf (1 :: real) 1 1 1\<rparr>],
         SizeVec [\<lparr>size_vec = \<lparr>vec_x = 14, vec_y = 18\<rparr>\<rparr>],
         PositionVec [\<lparr>pos = \<lparr>vec_x = 150, vec_y = 150\<rparr>\<rparr>],
         MovementVec [\<lparr>offset = \<lparr>vec_x = 5, vec_y = - 3\<rparr>\<rparr>]], m_systems = []\<rparr>) = Inr e') \<and>
   (\<exists>w'. RenderSystem_update (\<lambda>i. real_of_int (sint i)) 1 1 1
      (\<lparr>m_storage = [RenderVec [\<lparr>color = Colorf (1 :: real) 1 1 1\<rparr>],
         SizeVec [\<lparr>size_vec = \<lparr>vec_x = 14, vec_y = 18\<rparr>\<rparr>],
         PositionVec [\<lparr>pos = \<lparr>vec_x = 150, vec_y = 150\<rparr>\<rparr>],
         MovementVec [\<lparr>offset = \<lparr>vec_x = 5, vec_y = - 3\<rparr>\<rparr>]], m_systems = []\<rparr>, []) = Inr w') \<and>
   component PositionComponent_t 0
      (\<lparr>m_storage = [RenderVec [\<lparr>color = Colorf (1 :: real) 1 1 1\<rparr>],
         SizeVec [\<lparr>size_vec = \<lparr>vec_x = 14, vec_y = 18\<rparr>\<rparr>],
         PositionVec [\<lparr>pos = \<lparr>vec_x = 150, vec_y = 150\<rparr>\<rparr>],
         MovementVec [\<lparr>offset = \<lparr>vec_x = 5, vec_y = - 3\<rparr>\<rparr>]], m_systems = []\<rparr>)
     = Inr \<lparr>pos = \<lparr>vec_x = 150, vec_y = 150\<rparr>\<rparr>"
proof -
  let ?e = "\<lparr>m_storage = [RenderVec [\<lparr>color = Colorf (1 :: real) 1 1 1\<rparr>],
         SizeVec [\<lparr>size_vec = \<lparr>vec_x = 14, vec_y = 18\<rparr>\<rparr>],
         PositionVec [\<lparr>pos = \<lparr>vec_x = 150, vec_y = 150\<rparr>\<rparr>],
         MovementVec [\<lparr>offset = \<lparr>vec_x = 5, vec_y = - 3\<rparr>\<rparr>]], m_systems = []\<rparr>"
  have shape: "m_storage ?e = [RenderVec [\<lparr>color = Colorf (1 :: real) 1 1 1\<rparr>],
         SizeVec [\<lparr>size_vec = \<lparr>vec_x = 14, vec_y = 18\<rparr>\<rparr>],
         PositionVec [\<lparr>pos = \<lparr>vec_x = 150, vec_y = 150\<rparr>\<rparr>],
         MovementVec [\<lparr>offset = \<lparr>vec_x = 5, vec_y = - 3\<rparr>\<rparr>]]"
    by simp
  have i: "ECS_invariant ?e"
    unfolding ECS_invariant_shape using shape by blast
  from i accesses_in_bounds [OF i components_container_shape [OF shape],
      of 1 "\<lparr>width = 800, height = 600\<rparr>" "\<lambda>i. real_of_int (sint i)" 1 1 "[]"]
  show ?thesis
    by simp
qed

section \<open>Container lengths\<close>

lemma lockstep_shape:
  "ECS_invariant e \<and> (\<forall>item \<in> set (m_storage e). StorageItemType_size item = n) \<longleftrightarrow>
     (\<exists>rs ss ps ms. m_storage e = [RenderVec rs, SizeVec ss, PositionVec ps, MovementVec ms] \<and>
        length rs = n \<and> length ss = n \<and> length ps = n \<and> length ms = n)"
  by (auto simp: ECS_invariant_shape)

lemma System_update_lockstep:
  assumes "ECS_invariant e" and "\<forall>item \<in> set (m_storage e). StorageItemType_size item = n"
  shows "\<exists>e' renderer'. System_update to_float n s (e, renderer) = Inr (e', renderer') \<and>
           ECS_invariant e' \<and> (\<forall>item \<in> set (m_storage e'). StorageItemType_size item = n) \<and>
           m_systems e' = m_systems e"
proof -
  from assms obtain rs ss ps ms where
    shape: "m_storage e = [RenderVec rs, SizeVec ss, PositionVec ps, MovementVec ms]"
    and len: "length rs = n" "length ss = n" "length ps = n" "length ms = n"
    using lockstep_shape [of e n] by blast
  show ?thesis
  proof (cases s)
    case (RenderSystem mesh shader)
    from RenderSystem_loop_shape [OF shape, of n to_float mesh shader 0 renderer] len
    obtain renderer' where
      "RenderSystem_update to_float n mesh shader (e, renderer) = Inr (e, renderer')"
      by (auto simp: RenderSystem_update_def)
    with RenderSystem assms show ?thesis
      by (simp add: System_update_def)
  next
    case (MovementSystem sz)
    from MovementSystem_update_shape [OF shape, of n sz] len
    obtain ps' ms' where
      upd: "MovementSystem_update n sz e =
           Inr (e\<lparr>m_storage := [RenderVec rs, SizeVec ss, PositionVec ps', MovementVec ms']\<rparr>)"
      and len': "length ps' = length ps" "length ms' = length ms"
      by auto
    let ?e' = "e\<lparr>m_storage := [RenderVec rs, SizeVec ss, PositionVec ps', MovementVec ms']\<rparr>"
    have "ECS_invariant ?e' \<and> (\<forall>item \<in> set (m_storage ?e'). StorageItemType_size item = n)"
      unfolding lockstep_shape using len len' by simp
    with MovementSystem upd show ?thesis
      by (simp add: System_update_def)
  qed
qed

lemma update_systems_lockstep:
  assumes "ECS_invariant e" and "\<forall>item \<in> set (m_storage e). StorageItemType_size item = n"
  shows "\<exists>e' renderer'. update_systems (System_update to_float n) systems (e, renderer) = Inr (e', renderer') \<and>
           ECS_invariant e' \<and> (\<forall>item \<in> set (m_storage e'). StorageItemType_size item = n) \<and>
           m_systems e' = m_systems e"
  using assms
proof (induction systems arbitrary: e renderer)
  case Nil
  then show ?case by simp
next
  case (Cons s systems)
  from System_update_lockstep [OF Cons.prems, of to_float s renderer]
  obtain e1 r1 where
    s: "System_update to_float n s (e, renderer) = Inr (e1, r1)"
    and inv1: "ECS_invariant e1" "\<forall>item \<in> set (m_storage e1). StorageItemType_size item = n"
    and sys1: "m_systems e1 = m_systems e"
    by blast
  from Cons.IH [OF inv1, of r1] s sys1 show ?case
    by auto
qed

lemma run_ticks_lockstep:
  assumes "ECS_invariant e" and "\<forall>item \<in> set (m_storage e). StorageItemType_size item = n"
  shows "\<exists>e' renderer'. run_ticks to_float n k (e, renderer) = Inr (e', renderer') \<and>
           ECS_invariant e' \<and> (\<forall>item \<in> set (m_storage e'). StorageItemType_size item = n) \<and>
           m_systems e' = m_systems e"
  using assms
proof (induction k arbitrary: e renderer)
  case 0
  then show ?case by simp
next
  case (Suc k)
  from update_systems_lockstep [OF Suc.prems, of to_float "m_systems e" renderer]
  obtain e1 r1 where
    s: "ECS_update to_float n (e, renderer) = Inr (e1, r1)"
    and inv1: "ECS_invariant e1" "\<forall>item \<in> set (m_storage e1). StorageItemType_size item = n"
    and sys1: "m_systems e1 = m_systems e"
    by (auto simp: ECS_update_def)
  from Suc.IH [OF inv1, of r1] s sys1 show ?case
    by auto
qed

lemma add_component_sizes:
  assumes "declared T" and "add_component T v e0 = Inr e1"
  shows "length (m_storage e1) = length (m_storage e0) \<and>
         (\<forall>j < length (m_storage e0).
            StorageItemType_size (m_storage e0 ! j) \<le> StorageItemType_size (m_storage e1 ! j))"
proof -
  let ?i = "container_slot (ContainerType_of T)"
  from assms(2) obtain xs where
    xs: "components_container T e0 = Inr xs"
    and e1: "e1 = e0\<lparr>m_storage := (m_storage e0)[?i := std_put T (xs @ [v])]\<rparr>"
    by (auto simp: add_component_iff)
  from xs have lt: "?i < length (m_storage e0)" and "std_get T (m_storage e0 ! ?i) = Some xs"
    by (simp_all add: components_container_iff)
  with assms(1) have old: "m_storage e0 ! ?i = std_put T xs"
    by (simp add: declared_def)
  show ?thesis
    using lt by (auto simp: e1 nth_list_update old declared_size_put [OF assms(1)])
qed

text \<open>
  Claim C3. Let the ECS satisfy the class invariant, with any systems registered, and let
  every container have exactly \<open>n\<close> elements, the entity count. Then any number \<open>k\<close> of
  calls of \<open>ECS_update\<close> in a row returns a state in which every container still has
  exactly \<open>n\<close> elements, and the array has as many slots as before. The lengths change
  through \<open>add_component\<close> only, which never makes a container shorter.
\<close>

theorem container_lengths_constant:
  assumes "ECS_invariant e"
    and "\<forall>item \<in> set (m_storage e). StorageItemType_size item = n"
  shows "(\<exists>e' renderer'. run_ticks to_float n k (e, renderer) = Inr (e', renderer') \<and>
            (\<forall>item \<in> set (m_storage e'). StorageItemType_size item = n) \<and>
            length (m_storage e') = length (m_storage e)) \<and>
         (declared T \<and> add_component T v e0 = Inr e1 \<longrightarrow>
            length (m_storage e1) = length (m_storage e0) \<and>
            (\<forall>j < length (m_storage e0).
               StorageItemType_size (m_storage e0 ! j) \<le> StorageItemType_size (m_storage e1 ! j)))"
proof
  from run_ticks_lockstep [OF assms, of to_float k renderer]
  obtain e' renderer' where
    r: "run_ticks to_float n k (e, renderer) = Inr (e', renderer')"
    and i: "ECS_invariant e'"
    and l: "\<forall>item \<in> set (m_storage e'). StorageItemType_size item = n"
    by blast
  from i assms(1) have "length (m_storage e') = length (m_storage e)"
    by (simp add: ECS_invariant_slot [of _ RenderContainer])
  with r l show "\<exists>e' renderer'. run_ticks to_float n k (e, renderer) = Inr (e', renderer') \<and>
            (\<forall>item \<in> set (m_storage e'). StorageItemType_size item = n) \<and>
            length (m_storage e') = length (m_storage e)"
    by blast
  show "declared T \<and> add_component T v e0 = Inr e1 \<longrightarrow>
            length (m_storage e1) = length (m_storage e0) \<and>
            (\<forall>j < length (m_storage e0).
               StorageItemType_size (m_storage e0 ! j) \<le> StorageItemType_size (m_storage e1 ! j))"
    using add_component_sizes [of T v e0 e1] by blast
qed

theorem container_lengths_constant_witness:
  "ECS_invariant (\<lparr>m_storage = [RenderVec [\<lparr>color = Colorf (1 :: real) 1 1 1\<rparr>],
         SizeVec [\<lparr>size_vec = \<lparr>vec_x = 14, vec_y = 18\<rparr>\<rparr>],
         PositionVec [\<lparr>pos = \<lparr>vec_x = 150, vec_y = 150\<rparr>\<rparr>],
         MovementVec [\<lparr>offset = \<lparr>vec_x = 5, vec_y = - 3\<rparr>\<rparr>]],
       m_systems = [RenderSystem 1 1, MovementSystem \<lparr>width = 800, height = 600\<rparr>]\<rparr>) \<and>
   (\<exists>e' renderer'. run_ticks (\<lambda>i. real_of_int (sint i)) 1 2
      (\<lparr>m_storage = [RenderVec [\<lparr>color = Colorf (1 :: real) 1 1 1\<rparr>],
         SizeVec [\<lparr>size_vec = \<lparr>vec_x = 14, vec_y = 18\<rparr>\<rparr>],
         PositionVec [\<lparr>pos = \<lparr>vec_x = 150, vec_y = 150\<rparr>\<rparr>],
         MovementVec [\<lparr>offset = \<lparr>vec_x = 5, vec_y = - 3\<rparr>\<rparr>]],
       m_systems = [RenderSystem 1 1, MovementSystem \<lparr>width = 800, height = 600\<rparr>]\<rparr>, [])
        = Inr (e', renderer') \<and>
      (\<forall>item \<in> set (m_storage e'). StorageItemType_size item = 1)) \<and>
   declared (SizeComponent_t :: (SizeComponent, real) ComponentType) \<and>
   add_component SizeComponent_t \<lparr>size_vec = \<lparr>vec_x = 14, vec_y = 18\<rparr>\<rparr> (ECS_ctor :: real ECS)
     = Inr \<lparr>m_storage = [RenderVec [], SizeVec [\<lparr>size_vec = \<lparr>vec_x = 14, vec_y = 18\<rparr>\<rparr>],
              PositionVec [], MovementVec []], m_systems = []\<rparr> \<and>
   StorageItemType_size ((m_storage (ECS_ctor :: real ECS)) ! 1)
     \<le> StorageItemType_size ([RenderVec [], SizeVec [\<lparr>size_vec = \<lparr>vec_x = 14, vec_y = 18\<rparr>\<rparr>],
              PositionVec [], MovementVec [] :: real StorageItemType] ! 1)"
proof -
  let ?e = "\<lparr>m_storage = [RenderVec [\<lparr>color = Colorf (1 :: real) 1 1 1\<rparr>],
         SizeVec [\<lparr>size_vec = \<lparr>vec_x = 14, vec_y = 18\<rparr>\<rparr>],
         PositionVec [\<lparr>pos = \<lparr>vec_x = 150, vec_y = 150\<rparr>\<rparr>],
         MovementVec [\<lparr>offset = \<lparr>vec_x = 5, vec_y = - 3\<rparr>\<rparr>]],
       m_systems = [RenderSystem 1 1, MovementSystem \<lparr>width = 800, height = 600\<rparr>]\<rparr>"
  let ?e1 = "\<lparr>m_storage = [RenderVec [], SizeVec [\<lparr>size_vec = \<lparr>vec_x = 14, vec_y = 18\<rparr>\<rparr>],
              PositionVec [], MovementVec []], m_systems = []\<rparr> :: real ECS"
  have i: "ECS_invariant ?e"
    unfolding ECS_invariant_shape by simp
  have l: "\<forall>item \<in> set (m_storage ?e). StorageItemType_size item = 1"
    by simp
  have d: "declared (SizeComponent_t :: (SizeComponent, real) ComponentType)"
    by (rule declared_SizeComponent_t)
  have a: "add_component SizeComponent_t \<lparr>size_vec = \<lparr>vec_x = 14, vec_y = 18\<rparr>\<rparr> (ECS_ctor :: real ECS) = Inr ?e1"
    by (simp add: add_component_iff components_container_shape [of _ "[]" "[]" "[]" "[]"]
        ECS_ctor_eq ContainerType_of_simps std_put_simps container_slot_def)
  from container_lengths_constant [OF i l, of "\<lambda>i. real_of_int (sint i)" 2 "[]" SizeComponent_t
      "\<lparr>size_vec = \<lparr>vec_x = 14, vec_y = 18\<rparr>\<rparr>" ECS_ctor ?e1] i d a
  show ?thesis
    by (simp add: ECS_ctor_eq) blast
qed

section \<open>Reflection without regard to the direction\<close>

lemma step_offset_x:
  "vec_x (offset (snd (MovementSystem_step sz p s m))) =
     (if crosses_x sz p s then - vec_x (offset m) else vec_x (offset m))"
  by (simp add: MovementSystem_step_def Let_def crosses_x_def)

lemma step_offset_y:
  "vec_y (offset (snd (MovementSystem_step sz p s m))) =
     (if crosses_y sz p s then - vec_y (offset m) else vec_y (offset m))"
  by (simp add: MovementSystem_step_def Let_def crosses_y_def)

lemma step_pos:
  "pos (fst (MovementSystem_step sz p s m)) =
     Vector2i_plus (pos p) (offset (snd (MovementSystem_step sz p s m)))"
  by (simp add: MovementSystem_step_def Let_def)

lemma step_pos_x:
  "vec_x (pos (fst (MovementSystem_step sz p s m))) =
     vec_x (pos p) + vec_x (offset (snd (MovementSystem_step sz p s m)))"
  by (simp add: step_pos Vector2i_plus_def)

lemma step_pos_y:
  "vec_y (pos (fst (MovementSystem_step sz p s m))) =
     vec_y (pos p) + vec_y (offset (snd (MovementSystem_step sz p s m)))"
  by (simp add: step_pos Vector2i_plus_def)

lemma sint_uminus_int32:
  fixes a :: int32
  assumes "- (2 ^ 31) < sint a"
  shows "sint (- a) = - sint a"
proof -
  have "sint a < 2 ^ 31" using sint_lt [of a] by simp
  with assms show ?thesis
    by (simp add: sint_word_ariths signed_take_bit_int_eq_self)
qed

lemma sint_minus_int32:
  fixes a b :: int32
  assumes "- (2 ^ 31) \<le> sint a - sint b" and "sint a - sint b < 2 ^ 31"
  shows "sint (a - b) = sint a - sint b"
  using assms by (simp add: sint_word_ariths signed_take_bit_int_eq_self)

lemma outward_low:
  fixes a o1 :: int32
  assumes "int_greater o1 0"
  shows "int_less (- o1) 0 \<and> a + (- o1) = a - o1 \<and>
         (- (2 ^ 31) \<le> sint a - sint o1 \<longrightarrow> int_less (a - o1) a)"
proof -
  from assms have pos: "0 < sint o1" by (simp add: int_greater_def)
  then have neg: "sint (- o1) = - sint o1"
    by (intro sint_uminus_int32) simp
  have "int_less (a - o1) a" if "- (2 ^ 31) \<le> sint a - sint o1"
  proof -
    have "sint a < 2 ^ 31" using sint_lt [of a] by simp
    with pos that have "sint (a - o1) = sint a - sint o1"
      by (intro sint_minus_int32) simp_all
    with pos show ?thesis by (simp add: int_less_def)
  qed
  with pos neg show ?thesis by (simp add: int_less_def)
qed

lemma outward_high:
  fixes a o1 :: int32
  assumes "int_less o1 0" and "- (2 ^ 31) < sint o1"
  shows "int_greater (- o1) 0 \<and> a + (- o1) = a - o1 \<and>
         (sint a - sint o1 < 2 ^ 31 \<longrightarrow> int_greater (a - o1) a)"
proof -
  from assms have neg: "sint o1 < 0" by (simp add: int_less_def)
  have min: "sint (- o1) = - sint o1"
    using assms(2) by (rule sint_uminus_int32)
  have "int_greater (a - o1) a" if "sint a - sint o1 < 2 ^ 31"
  proof -
    have "- (2 ^ 31) \<le> sint a" using sint_ge [of a] by simp
    with neg that have "sint (a - o1) = sint a - sint o1"
      by (intro sint_minus_int32) simp_all
    with neg show ?thesis by (simp add: int_greater_def)
  qed
  with neg min show ?thesis by (simp add: int_greater_def)
qed

lemma MovementSystem_two_updates:
  assumes inv: "ECS_invariant e"
    and cs: "components_container PositionComponent_t e = Inr ps"
      "components_container SizeComponent_t e = Inr ss"
      "components_container MovementComponent_t e = Inr ms"
    and len: "n \<le> length ps" "n \<le> length ss" "n \<le> length ms"
    and idx: "index < n"
  shows "\<exists>e1 e2. MovementSystem_update n sz e = Inr e1 \<and> MovementSystem_update n sz e1 = Inr e2 \<and>
     component PositionComponent_t index e1 =
       Inr (fst (MovementSystem_step sz (ps ! index) (ss ! index) (ms ! index))) \<and>
     component MovementComponent_t index e1 =
       Inr (snd (MovementSystem_step sz (ps ! index) (ss ! index) (ms ! index))) \<and>
     component MovementComponent_t index e2 =
       Inr (snd (MovementSystem_step sz
                   (fst (MovementSystem_step sz (ps ! index) (ss ! index) (ms ! index)))
                   (ss ! index)
                   (snd (MovementSystem_step sz (ps ! index) (ss ! index) (ms ! index)))))"
proof -
  from MovementSystem_update_char [OF inv cs len, of sz]
  obtain e1 ps1 ms1 where
    upd1: "MovementSystem_update n sz e = Inr e1"
    and inv1: "ECS_invariant e1"
    and cs1: "components_container PositionComponent_t e1 = Inr ps1"
      "components_container SizeComponent_t e1 = Inr ss"
      "components_container MovementComponent_t e1 = Inr ms1"
    and len1: "length ps1 = length ps" "length ms1 = length ms"
    and P1: "\<forall>i < length ps. ps1 ! i = (if i < n
            then fst (MovementSystem_step sz (ps ! i) (ss ! i) (ms ! i)) else ps ! i)"
    and M1: "\<forall>i < length ms. ms1 ! i = (if i < n
            then snd (MovementSystem_step sz (ps ! i) (ss ! i) (ms ! i)) else ms ! i)"
    by blast
  have n1: "n \<le> length ps1" "n \<le> length ms1"
    using len len1 by simp_all
  from MovementSystem_update_char [OF inv1 cs1 n1(1) len(2) n1(2), of sz]
  obtain e2 ms2 where
    upd2: "MovementSystem_update n sz e1 = Inr e2"
    and cs2: "components_container MovementComponent_t e2 = Inr ms2"
    and len2: "length ms2 = length ms1"
    and M2: "\<forall>i < length ms1. ms2 ! i = (if i < n
            then snd (MovementSystem_step sz (ps1 ! i) (ss ! i) (ms1 ! i)) else ms1 ! i)"
    by blast
  have i: "index < length ps" "index < length ms" "index < length ps1" "index < length ms1"
    "index < length ms2"
    using idx len len1 len2 by simp_all
  have p1: "ps1 ! index = fst (MovementSystem_step sz (ps ! index) (ss ! index) (ms ! index))"
    using P1 i idx by simp
  have m1: "ms1 ! index = snd (MovementSystem_step sz (ps ! index) (ss ! index) (ms ! index))"
    using M1 i idx by simp
  have m2: "ms2 ! index = snd (MovementSystem_step sz (ps1 ! index) (ss ! index) (ms1 ! index))"
    using M2 i idx by simp
  show ?thesis
    using upd1 upd2 cs1 cs2 i p1 m1 m2
    by (intro exI [of _ e1] exI [of _ e2]) (simp add: component_iff)
qed

text \<open>
  Claim C9. Under the conditions of claim C1, for the entity \<open>index\<close> with the components
  \<open>p\<close>, \<open>s\<close> and \<open>m\<close> before the first of two ticks in a row. The offset is negated on an
  axis exactly when the box crosses a boundary on that axis, a condition on \<open>p\<close> and \<open>s\<close>
  alone. When the box is below zero on an axis and the offset on it is positive, so that it
  points back into the domain, the offset after the tick is negative and the entity has
  moved by the negated offset, to a smaller coordinate unless the subtraction leaves the
  range of \<^verbatim>\<open>int\<close>. When the box is beyond the far boundary and the offset is negative, and
  not the least \<^verbatim>\<open>int\<close>, the offset after the tick is positive and the entity has moved
  to a larger coordinate, again unless the range is left. When the box crosses a boundary of
  the same axis before both ticks, the offset on that axis after the second tick is the
  offset before the first.
\<close>

theorem reflection_ignores_direction:
  assumes "ECS_invariant e"
    and "components_container PositionComponent_t e = Inr ps"
    and "components_container SizeComponent_t e = Inr ss"
    and "components_container MovementComponent_t e = Inr ms"
    and "n \<le> length ps" and "n \<le> length ss" and "n \<le> length ms"
    and "index < n"
    and "p = ps ! index" and "s = ss ! index" and "m = ms ! index"
  shows "\<exists>e1 e2 p1 m1 m2.
     MovementSystem_update n m_size e = Inr e1 \<and> MovementSystem_update n m_size e1 = Inr e2 \<and>
     component PositionComponent_t index e1 = Inr p1 \<and>
     component MovementComponent_t index e1 = Inr m1 \<and>
     component MovementComponent_t index e2 = Inr m2 \<and>
     vec_x (offset m1) = (if crosses_x m_size p s then - vec_x (offset m) else vec_x (offset m)) \<and>
     vec_y (offset m1) = (if crosses_y m_size p s then - vec_y (offset m) else vec_y (offset m)) \<and>
     (int_less (vec_x (pos p) - int_div (vec_x (size_vec s)) 2) 0 \<and> int_greater (vec_x (offset m)) 0 \<longrightarrow>
        int_less (vec_x (offset m1)) 0 \<and> vec_x (pos p1) = vec_x (pos p) - vec_x (offset m) \<and>
        (- (2 ^ 31) \<le> sint (vec_x (pos p)) - sint (vec_x (offset m)) \<longrightarrow>
           int_less (vec_x (pos p1)) (vec_x (pos p)))) \<and>
     (int_greater (vec_x (pos p) + int_div (vec_x (size_vec s)) 2) (width m_size) \<and>
      int_less (vec_x (offset m)) 0 \<and> - (2 ^ 31) < sint (vec_x (offset m)) \<longrightarrow>
        int_greater (vec_x (offset m1)) 0 \<and> vec_x (pos p1) = vec_x (pos p) - vec_x (offset m) \<and>
        (sint (vec_x (pos p)) - sint (vec_x (offset m)) < 2 ^ 31 \<longrightarrow>
           int_greater (vec_x (pos p1)) (vec_x (pos p)))) \<and>
     (int_less (vec_y (pos p) - int_div (vec_y (size_vec s)) 2) 0 \<and> int_greater (vec_y (offset m)) 0 \<longrightarrow>
        int_less (vec_y (offset m1)) 0 \<and> vec_y (pos p1) = vec_y (pos p) - vec_y (offset m) \<and>
        (- (2 ^ 31) \<le> sint (vec_y (pos p)) - sint (vec_y (offset m)) \<longrightarrow>
           int_less (vec_y (pos p1)) (vec_y (pos p)))) \<and>
     (int_greater (vec_y (pos p) + int_div (vec_y (size_vec s)) 2) (height m_size) \<and>
      int_less (vec_y (offset m)) 0 \<and> - (2 ^ 31) < sint (vec_y (offset m)) \<longrightarrow>
        int_greater (vec_y (offset m1)) 0 \<and> vec_y (pos p1) = vec_y (pos p) - vec_y (offset m) \<and>
        (sint (vec_y (pos p)) - sint (vec_y (offset m)) < 2 ^ 31 \<longrightarrow>
           int_greater (vec_y (pos p1)) (vec_y (pos p)))) \<and>
     (crosses_x m_size p s \<and> crosses_x m_size p1 s \<longrightarrow> vec_x (offset m2) = vec_x (offset m)) \<and>
     (crosses_y m_size p s \<and> crosses_y m_size p1 s \<longrightarrow> vec_y (offset m2) = vec_y (offset m))"
proof -
  let ?st = "MovementSystem_step m_size p s m"
  let ?st2 = "MovementSystem_step m_size (fst ?st) s (snd ?st)"
  from MovementSystem_two_updates [OF assms(1-8), of m_size]
  obtain e1 e2 where
    u: "MovementSystem_update n m_size e = Inr e1" "MovementSystem_update n m_size e1 = Inr e2"
    and c: "component PositionComponent_t index e1 = Inr (fst ?st)"
      "component MovementComponent_t index e1 = Inr (snd ?st)"
      "component MovementComponent_t index e2 = Inr (snd ?st2)"
    unfolding assms(9-11) by blast
  have ox: "vec_x (offset (snd ?st)) = (if crosses_x m_size p s then - vec_x (offset m) else vec_x (offset m))"
    by (rule step_offset_x)
  have oy: "vec_y (offset (snd ?st)) = (if crosses_y m_size p s then - vec_y (offset m) else vec_y (offset m))"
    by (rule step_offset_y)
  have lowx: "int_less (vec_x (offset (snd ?st))) 0 \<and>
        vec_x (pos (fst ?st)) = vec_x (pos p) - vec_x (offset m) \<and>
        (- (2 ^ 31) \<le> sint (vec_x (pos p)) - sint (vec_x (offset m)) \<longrightarrow>
           int_less (vec_x (pos (fst ?st))) (vec_x (pos p)))"
    if "int_less (vec_x (pos p) - int_div (vec_x (size_vec s)) 2) 0" "int_greater (vec_x (offset m)) 0"
  proof -
    from that(1) have "crosses_x m_size p s" by (simp add: crosses_x_def)
    then show ?thesis
      using outward_low [OF that(2), of "vec_x (pos p)"] by (simp add: step_pos_x ox)
  qed
  have highx: "int_greater (vec_x (offset (snd ?st))) 0 \<and>
        vec_x (pos (fst ?st)) = vec_x (pos p) - vec_x (offset m) \<and>
        (sint (vec_x (pos p)) - sint (vec_x (offset m)) < 2 ^ 31 \<longrightarrow>
           int_greater (vec_x (pos (fst ?st))) (vec_x (pos p)))"
    if "int_greater (vec_x (pos p) + int_div (vec_x (size_vec s)) 2) (width m_size)"
      "int_less (vec_x (offset m)) 0" "- (2 ^ 31) < sint (vec_x (offset m))"
  proof -
    from that(1) have "crosses_x m_size p s" by (simp add: crosses_x_def)
    then show ?thesis
      using outward_high [OF that(2,3), of "vec_x (pos p)"] by (simp add: step_pos_x ox)
  qed
  have lowy: "int_less (vec_y (offset (snd ?st))) 0 \<and>
        vec_y (pos (fst ?st)) = vec_y (pos p) - vec_y (offset m) \<and>
        (- (2 ^ 31) \<le> sint (vec_y (pos p)) - sint (vec_y (offset m)) \<longrightarrow>
           int_less (vec_y (pos (fst ?st))) (vec_y (pos p)))"
    if "int_less (vec_y (pos p) - int_div (vec_y (size_vec s)) 2) 0" "int_greater (vec_y (offset m)) 0"
  proof -
    from that(1) have "crosses_y m_size p s" by (simp add: crosses_y_def)
    then show ?thesis
      using outward_low [OF that(2), of "vec_y (pos p)"] by (simp add: step_pos_y oy)
  qed
  have highy: "int_greater (vec_y (offset (snd ?st))) 0 \<and>
        vec_y (pos (fst ?st)) = vec_y (pos p) - vec_y (offset m) \<and>
        (sint (vec_y (pos p)) - sint (vec_y (offset m)) < 2 ^ 31 \<longrightarrow>
           int_greater (vec_y (pos (fst ?st))) (vec_y (pos p)))"
    if "int_greater (vec_y (pos p) + int_div (vec_y (size_vec s)) 2) (height m_size)"
      "int_less (vec_y (offset m)) 0" "- (2 ^ 31) < sint (vec_y (offset m))"
  proof -
    from that(1) have "crosses_y m_size p s" by (simp add: crosses_y_def)
    then show ?thesis
      using outward_high [OF that(2,3), of "vec_y (pos p)"] by (simp add: step_pos_y oy)
  qed
  have twox: "vec_x (offset (snd ?st2)) = vec_x (offset m)"
    if "crosses_x m_size p s" "crosses_x m_size (fst ?st) s"
    using that by (simp add: step_offset_x)
  have twoy: "vec_y (offset (snd ?st2)) = vec_y (offset m)"
    if "crosses_y m_size p s" "crosses_y m_size (fst ?st) s"
    using that by (simp add: step_offset_y)
  show ?thesis
    by (rule exI [of _ e1], rule exI [of _ e2], rule exI [of _ "fst ?st"],
        rule exI [of _ "snd ?st"], rule exI [of _ "snd ?st2"])
      (insert u c ox oy lowx highx lowy highy twox twoy, intro conjI impI; blast)
qed

theorem reflection_ignores_direction_witness:
  "\<exists>e1 e2 p1 m1 m2.
     MovementSystem_update 1 \<lparr>width = 800, height = 600\<rparr>
       (\<lparr>m_storage = [RenderVec [], SizeVec [\<lparr>size_vec = \<lparr>vec_x = 4, vec_y = 4\<rparr>\<rparr>],
           PositionVec [\<lparr>pos = \<lparr>vec_x = - 10, vec_y = 300\<rparr>\<rparr>],
           MovementVec [\<lparr>offset = \<lparr>vec_x = 3, vec_y = 0\<rparr>\<rparr>]], m_systems = []\<rparr> :: real ECS) = Inr e1 \<and>
     MovementSystem_update 1 \<lparr>width = 800, height = 600\<rparr> e1 = Inr e2 \<and>
     component PositionComponent_t 0 e1 = Inr p1 \<and>
     component MovementComponent_t 0 e1 = Inr m1 \<and>
     component MovementComponent_t 0 e2 = Inr m2 \<and>
     vec_x (offset m1) = - 3 \<and> vec_x (pos p1) = - 13 \<and> vec_x (offset m2) = 3"
proof -
  let ?e = "\<lparr>m_storage = [RenderVec [], SizeVec [\<lparr>size_vec = \<lparr>vec_x = 4, vec_y = 4\<rparr>\<rparr>],
           PositionVec [\<lparr>pos = \<lparr>vec_x = - 10, vec_y = 300\<rparr>\<rparr>],
           MovementVec [\<lparr>offset = \<lparr>vec_x = 3, vec_y = 0\<rparr>\<rparr>]], m_systems = []\<rparr> :: real ECS"
  let ?sz = "\<lparr>width = 800, height = 600\<rparr>"
  let ?p = "\<lparr>pos = \<lparr>vec_x = - 10, vec_y = 300\<rparr>\<rparr>"
  let ?s = "\<lparr>size_vec = \<lparr>vec_x = 4, vec_y = 4\<rparr>\<rparr>"
  let ?m = "\<lparr>offset = \<lparr>vec_x = 3, vec_y = 0\<rparr>\<rparr>"
  have shape: "m_storage ?e = [RenderVec [], SizeVec [?s], PositionVec [?p], MovementVec [?m]]"
    by simp
  have i: "ECS_invariant ?e"
    unfolding ECS_invariant_shape by simp
  have half: "int_div 4 2 = 2"
    by (simp add: int_div_def signed_divide_int_def)
  have c0: "crosses_x ?sz ?p ?s"
    by (simp add: crosses_x_def half int_less_def int_greater_def)
  have low: "int_less (vec_x (pos ?p) - int_div (vec_x (size_vec ?s)) 2) 0 \<and> int_greater (vec_x (offset ?m)) 0"
    by (simp add: half int_less_def int_greater_def)
  have len: "1 \<le> length [?p]" "1 \<le> length [?s]" "1 \<le> length [?m]" "(0 :: nat) < 1"
    by simp_all
  have nth: "?p = [?p] ! 0" "?s = [?s] ! 0" "?m = [?m] ! 0"
    by simp_all
  from reflection_ignores_direction [OF i components_container_shape(3) [OF shape]
      components_container_shape(2) [OF shape] components_container_shape(4) [OF shape]
      len nth, of ?sz]
  obtain e1 e2 p1 m1 m2 where
    u: "MovementSystem_update 1 ?sz ?e = Inr e1" "MovementSystem_update 1 ?sz e1 = Inr e2"
      "component PositionComponent_t 0 e1 = Inr p1"
      "component MovementComponent_t 0 e1 = Inr m1"
      "component MovementComponent_t 0 e2 = Inr m2"
    and o1: "vec_x (offset m1) = (if crosses_x ?sz ?p ?s then - vec_x (offset ?m) else vec_x (offset ?m))"
    and l: "int_less (vec_x (pos ?p) - int_div (vec_x (size_vec ?s)) 2) 0 \<and> int_greater (vec_x (offset ?m)) 0 \<longrightarrow>
        int_less (vec_x (offset m1)) 0 \<and> vec_x (pos p1) = vec_x (pos ?p) - vec_x (offset ?m) \<and>
        (- (2 ^ 31) \<le> sint (vec_x (pos ?p)) - sint (vec_x (offset ?m)) \<longrightarrow>
           int_less (vec_x (pos p1)) (vec_x (pos ?p)))"
    and two: "crosses_x ?sz ?p ?s \<and> crosses_x ?sz p1 ?s \<longrightarrow> vec_x (offset m2) = vec_x (offset ?m)"
    by (elim exE conjE) (rule that; assumption)
  from l low have p1: "vec_x (pos p1) = - 13"
    by simp
  then have c1: "crosses_x ?sz p1 ?s"
    by (simp add: crosses_x_def half int_less_def int_greater_def)
  from o1 c0 have "vec_x (offset m1) = - 3" by simp
  moreover from two c0 c1 have "vec_x (offset m2) = 3" by simp
  ultimately show ?thesis using u p1 by blast
qed

end
